theory Spec2Isabelle
  imports Complex_Main
begin

text \<open>
  A model of the payment core of the M-Pesa integration for NestJS: the utilities of
  \<open>MpesaUtils\<close> (phone numbers, callback metadata, transaction dates, retries) and
  the service \<open>MpesaService\<close> (circuit breaker, initiation of a push payment,
  reconciliation of a callback), with the table of transactions they work on. An
  exception is a value \<open>Inl\<close>, the state of the service is passed along, and what
  the gateway, the database, the clock and the JavaScript engine contribute is given
  from outside.
\<close>

section \<open>Errors\<close>

text \<open>
  The service and its utilities raise two kinds of exception: a plain \<open>Error\<close> with a
  message, and Nest's \<open>HttpException\<close> with a message and an HTTP status
  (\<open>NotFoundException\<close> is the \<open>HttpException\<close> of status 404).
\<close>

datatype exn = Error string | HttpException string nat

definition BAD_REQUEST :: nat where "BAD_REQUEST = 400"
definition NOT_FOUND :: nat where "NOT_FOUND = 404"
definition INTERNAL_SERVER_ERROR :: nat where "INTERNAL_SERVER_ERROR = 500"
definition SERVICE_UNAVAILABLE :: nat where "SERVICE_UNAVAILABLE = 503"

fun isHttpException :: "exn \<Rightarrow> bool" where
  "isHttpException (HttpException m s) = True"
| "isHttpException (Error m) = False"

section \<open>The circuit breaker\<close>

datatype CircuitBreakerState = CLOSED | OPEN | HALF_OPEN

record CircuitBreakerStatus =
  state :: CircuitBreakerState
  failures :: nat
  lastFailureTime :: "int option"
  nextAttemptTime :: "int option"

definition initialBreaker :: CircuitBreakerStatus where
  "initialBreaker =
     \<lparr>state = CLOSED, failures = 0, lastFailureTime = None, nextAttemptTime = None\<rparr>"

definition maxFailures :: nat where "maxFailures = 5"
definition resetTimeout :: int where "resetTimeout = 60000"

text \<open>
  \<open>recordSuccess\<close> only acts in \<open>HALF_OPEN\<close>.
\<close>

definition recordSuccess :: "CircuitBreakerStatus \<Rightarrow> CircuitBreakerStatus" where
  "recordSuccess cb =
     (if state cb = HALF_OPEN then cb\<lparr>state := CLOSED, failures := 0\<rparr> else cb)"

text \<open>
  \<open>recordFailure\<close> reads the clock twice: \<open>new Date()\<close> for \<open>lastFailureTime\<close>
  (reading \<open>tDate\<close>) and \<open>Date.now()\<close> for \<open>nextAttemptTime\<close> (reading \<open>tNow\<close>).
\<close>

definition recordFailure :: "int \<Rightarrow> int \<Rightarrow> CircuitBreakerStatus \<Rightarrow> CircuitBreakerStatus" where
  "recordFailure tDate tNow cb =
     (let cb1 = cb\<lparr>failures := failures cb + 1, lastFailureTime := Some tDate\<rparr>
      in if failures cb1 \<ge> maxFailures
         then cb1\<lparr>state := OPEN, nextAttemptTime := Some (tNow + resetTimeout)\<rparr>
         else cb1)"

section \<open>JavaScript strings and numbers\<close>

text \<open>
  A JavaScript string is modelled as a \<open>string\<close>, one \<open>char\<close> per code unit; code
  units above 255 are outside the model. Numbers are modelled where they are integers
  that a double holds exactly.
\<close>

definition isDigit :: "char \<Rightarrow> bool" where
  "isDigit c = (c \<in> set ''0123456789'')"

text \<open>The value of a digit: its code minus the code of \<open>0\<close>.\<close>

definition digitVal :: "char \<Rightarrow> nat" where
  "digitVal c = of_char c - 48"

text \<open>The characters \<open>String.prototype.trim\<close> and the numeric grammar treat as white space.\<close>

definition isWhiteSpace :: "char \<Rightarrow> bool" where
  "isWhiteSpace c =
     (c \<in> {CHR 0x09, CHR 0x0A, CHR 0x0B, CHR 0x0C, CHR 0x0D, CHR 0x20, CHR 0xA0})"

definition trimStart :: "string \<Rightarrow> string" where
  "trimStart s = dropWhile isWhiteSpace s"

definition trim :: "string \<Rightarrow> string" where
  "trim s = rev (dropWhile isWhiteSpace (rev (dropWhile isWhiteSpace s)))"

definition startsWith :: "string \<Rightarrow> string \<Rightarrow> bool" where
  "startsWith s p = (take (length p) s = p)"

text \<open>\<open>s.slice(i, j)\<close> for \<open>0 \<le> i \<le> j\<close>.\<close>

definition slice :: "string \<Rightarrow> nat \<Rightarrow> nat \<Rightarrow> string" where
  "slice s i j = take (j - i) (drop i s)"

text \<open>The value of a digit string in base 10, most significant digit first.\<close>

definition decimalValue :: "string \<Rightarrow> nat" where
  "decimalValue ds = foldl (\<lambda>acc c. 10 * acc + digitVal c) 0 ds"

definition isHexDigit :: "char \<Rightarrow> bool" where
  "isHexDigit c = (c \<in> set ''0123456789abcdefABCDEF'')"

definition hexVal :: "char \<Rightarrow> nat" where
  "hexVal c =
     (if isDigit c then digitVal c
      else if c \<in> set ''abcdef'' then of_char c - 87
      else of_char c - 55)"

definition radixValue :: "nat \<Rightarrow> string \<Rightarrow> nat" where
  "radixValue r ds = foldl (\<lambda>acc c. r * acc + hexVal c) 0 ds"

text \<open>
  \<open>parseInt(s)\<close> with no radix: leading white space and one sign are dropped, a
  \<open>0x\<close> prefix selects base 16, and the longest prefix of digits is read; \<open>None\<close> is
  \<open>NaN\<close>. The result is exact for the short slices it is applied to here.
\<close>

definition parseInt :: "string \<Rightarrow> int option" where
  "parseInt s =
     (let s1 = trimStart s;
          neg = startsWith s1 ''-'';
          s2 = (if startsWith s1 ''-'' \<or> startsWith s1 ''+'' then drop 1 s1 else s1);
          hex = (startsWith s2 ''0x'' \<or> startsWith s2 ''0X'');
          s3 = (if hex then drop 2 s2 else s2);
          z = (if hex then takeWhile isHexDigit s3 else takeWhile isDigit s3);
          v = (if hex then radixValue 16 z else decimalValue z)
      in if z = [] then None else Some (if neg then - int v else int v))"

text \<open>Comparisons in which \<open>NaN\<close> takes part are false.\<close>

definition numLess :: "int option \<Rightarrow> int \<Rightarrow> bool" where
  "numLess a b = (case a of None \<Rightarrow> False | Some x \<Rightarrow> x < b)"

definition numGreater :: "int option \<Rightarrow> int \<Rightarrow> bool" where
  "numGreater a b = (case a of None \<Rightarrow> False | Some x \<Rightarrow> x > b)"

text \<open>
  \<open>Number(s)\<close> on a string. The result is \<open>JNaN\<close> when the trimmed string is no numeric
  literal, \<open>JInt n\<close> when it denotes an integer of at most \<open>2^53\<close> in absolute value,
  which a double holds exactly (the empty string, a \<open>0x\<close>, \<open>0o\<close> or \<open>0b\<close> literal, a
  signed decimal literal, with or without fraction and exponent, whose value is whole),
  and \<open>JInexact\<close> for every other numeric literal (a value that is not whole or is
  beyond \<open>2^53\<close>, \<open>Infinity\<close>), whose double this model does not compute.
\<close>

datatype jsnum = JNaN | JInt int | JInexact

definition safeInt :: "int \<Rightarrow> jsnum" where
  "safeInt n = (if \<bar>n\<bar> \<le> 2 ^ 53 then JInt n else JInexact)"

fun negateNum :: "jsnum \<Rightarrow> jsnum" where
  "negateNum (JInt n) = JInt (- n)"
| "negateNum JNaN = JNaN"
| "negateNum JInexact = JInexact"

text \<open>The digits of an exponent part, \<open>e\<close> or \<open>E\<close> with an optional sign before them.\<close>

definition exponentDigits :: "string \<Rightarrow> string" where
  "exponentDigits s =
     (let r = tl s in if startsWith r ''+'' \<or> startsWith r ''-'' then drop 1 r else r)"

definition isExponentPart :: "string \<Rightarrow> bool" where
  "isExponentPart s =
     (s \<noteq> [] \<and> (hd s = CHR ''e'' \<or> hd s = CHR ''E'') \<and>
      exponentDigits s \<noteq> [] \<and> list_all isDigit (exponentDigits s))"

text \<open>The exponent an exponent part denotes; none is 0.\<close>

definition exponentOf :: "string \<Rightarrow> int" where
  "exponentOf s =
     (if s = [] then 0
      else if startsWith (tl s) ''-'' then - int (decimalValue (exponentDigits s))
      else int (decimalValue (exponentDigits s)))"

text \<open>
  An unsigned decimal literal is \<open>Infinity\<close> or digits, with an optional fraction
  (a dot and digits; one of the two runs of digits may be empty) and an optional exponent
  part.
\<close>

definition integerDigits :: "string \<Rightarrow> string" where
  "integerDigits s = takeWhile isDigit s"

definition fractionDigits :: "string \<Rightarrow> string" where
  "fractionDigits s =
     (let r = dropWhile isDigit s
      in if startsWith r ''.'' then takeWhile isDigit (drop 1 r) else [])"

definition afterFraction :: "string \<Rightarrow> string" where
  "afterFraction s =
     (let r = dropWhile isDigit s
      in if startsWith r ''.'' then dropWhile isDigit (drop 1 r) else r)"

definition isUnsignedDecimalLiteral :: "string \<Rightarrow> bool" where
  "isUnsignedDecimalLiteral s =
     (s = ''Infinity'' \<or>
      ((integerDigits s \<noteq> [] \<or> fractionDigits s \<noteq> []) \<and>
       (afterFraction s = [] \<or> isExponentPart (afterFraction s))))"

text \<open>
  The value of an unsigned decimal literal other than \<open>Infinity\<close>: the digits \<open>m\<close> of
  its integer and fraction parts, times ten to the power \<open>k\<close>, the exponent less the
  number of fraction digits. It is whole when \<open>m\<close> is 0, when \<open>k\<close> is not negative,
  or when ten to the \<open>-k\<close> divides \<open>m\<close>; with \<open>k\<close> above 16 it is beyond \<open>2^53\<close>, and
  with more than its number of digits to cut off it is below 1.
\<close>

definition decimalLiteral :: "string \<Rightarrow> jsnum" where
  "decimalLiteral s =
     (let digits = integerDigits s @ fractionDigits s;
          m = decimalValue digits;
          k = exponentOf (afterFraction s) - int (length (fractionDigits s))
      in if m = 0 then JInt 0
         else if 0 \<le> k then (if k \<le> 16 then safeInt (int m * 10 ^ nat k) else JInexact)
         else if length digits < nat (- k) then JInexact
         else if m mod 10 ^ nat (- k) = 0 then safeInt (int (m div 10 ^ nat (- k)))
         else JInexact)"

definition isOctDigit :: "char \<Rightarrow> bool" where
  "isOctDigit c = (c \<in> set ''01234567'')"

definition isBinDigit :: "char \<Rightarrow> bool" where
  "isBinDigit c = (c \<in> set ''01'')"

definition jsNumber :: "string \<Rightarrow> jsnum" where
  "jsNumber s =
     (let t = trim s;
          body = drop 2 t
      in if t = [] then JInt 0
         else if (startsWith t ''0x'' \<or> startsWith t ''0X'') \<and> body \<noteq> [] \<and> list_all isHexDigit body
           then safeInt (int (radixValue 16 body))
         else if (startsWith t ''0o'' \<or> startsWith t ''0O'') \<and> body \<noteq> [] \<and> list_all isOctDigit body
           then safeInt (int (radixValue 8 body))
         else if (startsWith t ''0b'' \<or> startsWith t ''0B'') \<and> body \<noteq> [] \<and> list_all isBinDigit body
           then safeInt (int (radixValue 2 body))
         else
           (let neg = startsWith t ''-'';
                u = (if startsWith t ''-'' \<or> startsWith t ''+'' then drop 1 t else t)
            in if u = ''Infinity'' then JInexact
               else if isUnsignedDecimalLiteral u
                 then (if neg then negateNum (decimalLiteral u) else decimalLiteral u)
               else JNaN))"

text \<open>The decimal digits of an integer, with a minus sign when it is negative.\<close>

fun showNat :: "nat \<Rightarrow> string" where
  "showNat n =
     (if n < 10 then [''0123456789'' ! n]
      else showNat (n div 10) @ [''0123456789'' ! (n mod 10)])"

declare showNat.simps [simp del]

definition showInt :: "int \<Rightarrow> string" where
  "showInt i = (if i < 0 then ''-'' @ showNat (nat (- i)) else showNat (nat i))"

section \<open>Dates\<close>

text \<open>
  An instant is its time value: milliseconds since the epoch, as \<open>Date.prototype.getTime\<close>
  gives it. \<open>None\<close> stands for an invalid \<open>Date\<close>, whose time value is \<open>NaN\<close>.
\<close>

type_synonym instant = int

text \<open>
  The engine's \<open>MakeDay\<close>: the day number of the first of month \<open>m\<close> (1 to 12) of year
  \<open>y\<close>, plus \<open>d - 1\<close>. A day beyond the month's length runs on into the next month.
\<close>

definition daysFromCivil :: "int \<Rightarrow> int \<Rightarrow> int \<Rightarrow> int" where
  "daysFromCivil y m d =
     (let y1 = (if m \<le> 2 then y - 1 else y);
          era = y1 div 400;
          yoe = y1 - era * 400;
          doy = (153 * (if m > 2 then m - 3 else m + 9) + 2) div 5 + d - 1;
          doe = yoe * 365 + yoe div 4 - yoe div 100 + doy
      in era * 146097 + doe - 719468)"

text \<open>The instant of a civil date and time of day read in East Africa Time, UTC+3.\<close>

definition eatInstant :: "int \<Rightarrow> int \<Rightarrow> int \<Rightarrow> int \<Rightarrow> int \<Rightarrow> int \<Rightarrow> instant" where
  "eatInstant y m d h mi s =
     ((daysFromCivil y m d * 86400 + h * 3600 + mi * 60 + s) - 3 * 3600) * 1000"

text \<open>
  What the JavaScript engine contributes and this model does not compute:
  \<^item> \<open>legacyDate s\<close>: the time value of \<open>new Date(s)\<close> for a string \<open>s\<close> that is not in
    the ECMAScript date-time format, which the language leaves to the implementation;
  \<^item> \<open>inexactDate s\<close>: the time value of \<open>new Date(Number(s) * 1000)\<close> for a numeric
    literal \<open>s\<close> on which \<open>jsNumber\<close> answers \<open>JInexact\<close>;
  \<^item> \<open>bigNumberString n\<close>: \<open>String(n)\<close> for a number of \<open>10^21\<close> or more in absolute
    value, which is printed with an exponent.
\<close>

record runtime =
  legacyDate :: "string \<Rightarrow> instant option"
  inexactDate :: "string \<Rightarrow> instant option"
  bigNumberString :: "int \<Rightarrow> string"

text \<open>\<open>String(n)\<close> for a whole number: its decimal digits below \<open>10^21\<close>.\<close>

definition numberString :: "runtime \<Rightarrow> int \<Rightarrow> string" where
  "numberString rt n = (if \<bar>n\<bar> < 10 ^ 21 then showInt n else bigNumberString rt n)"

text \<open>
  \<open>new Date(s)\<close> on the strings \<open>parseTransactionDate\<close> builds,
  \<open>y-m-dTh:mi:s+03:00\<close> with a four-character \<open>y\<close> and two-character other fields.
  Such a string is in the ECMAScript format when every field is made of digits, the
  month is 01 to 12, the day 01 to 31, and the time of day is in range; Node's engine
  then computes the instant with \<open>MakeDay\<close>. Every other string goes to \<open>legacyDate\<close>.
\<close>

definition isoEAT :: "string \<Rightarrow> instant option" where
  "isoEAT s =
     (let y = slice s 0 4; m = slice s 5 7; d = slice s 8 10;
          h = slice s 11 13; mi = slice s 14 16; sec = slice s 17 19;
          yn = int (decimalValue y); mn = int (decimalValue m); dn = int (decimalValue d);
          hn = int (decimalValue h); min = int (decimalValue mi); sn = int (decimalValue sec)
      in if length s = 25 \<and> slice s 4 5 = ''-'' \<and> slice s 7 8 = ''-'' \<and> slice s 10 11 = ''T''
            \<and> slice s 13 14 = '':'' \<and> slice s 16 17 = '':'' \<and> slice s 19 25 = ''+03:00''
            \<and> list_all isDigit (y @ m @ d @ h @ mi @ sec)
            \<and> 1 \<le> mn \<and> mn \<le> 12 \<and> 1 \<le> dn \<and> dn \<le> 31
            \<and> hn \<le> 23 \<and> min \<le> 59 \<and> sn \<le> 59
         then Some (eatInstant yn mn dn hn min sn)
         else None)"

definition newDateOfString :: "runtime \<Rightarrow> string \<Rightarrow> instant option" where
  "newDateOfString rt s = (case isoEAT s of Some t \<Rightarrow> Some t | None \<Rightarrow> legacyDate rt s)"

text \<open>A time value is a valid date within 8.64e15 milliseconds of the epoch.\<close>

definition timeClip :: "int \<Rightarrow> instant option" where
  "timeClip t = (if \<bar>t\<bar> \<le> 8640000000000000 then Some t else None)"

section \<open>MpesaUtils\<close>

text \<open>
  \<open>formatPhoneNumber\<close> removes every character that is not a digit (\<open>replace(/\D/g, '')\<close>)
  and decides on what is left. Its third test looks for a \<open>+\<close> that has just been
  removed. The \<open>catch\<close> logs and rethrows.
\<close>

definition formatPhoneNumber :: "string \<Rightarrow> exn + string" where
  "formatPhoneNumber phoneNumber =
     (let cleaned = filter isDigit phoneNumber
      in if startsWith cleaned ''0'' \<and> length cleaned = 10 then Inr (''254'' @ drop 1 cleaned)
         else if startsWith cleaned ''254'' \<and> length cleaned = 12 then Inr cleaned
         else if startsWith cleaned ''+254'' then Inr (drop 1 cleaned)
         else if length cleaned = 9 then Inr (''254'' @ cleaned)
         else Inl (Error (''Invalid phone number format: '' @ phoneNumber)))"

text \<open>
  The \<open>try\<close> block of \<open>parseTransactionDate\<close>: \<open>Inl\<close> is a throw, which the \<open>catch\<close>
  of \<open>parseTransactionDate\<close> turns into the current time. In the ten-character branch
  the log line calls \<open>toISOString\<close>, which throws a \<open>RangeError\<close> on an invalid date.
\<close>

definition invalidComponents ::
  "int option \<Rightarrow> int option \<Rightarrow> int option \<Rightarrow> int option \<Rightarrow> int option \<Rightarrow> int option \<Rightarrow> bool" where
  "invalidComponents yearNum monthNum dayNum hourNum minuteNum secondNum =
     (numLess yearNum 2020 \<or> numGreater yearNum 2030 \<or>
      numLess monthNum 1 \<or> numGreater monthNum 12 \<or>
      numLess dayNum 1 \<or> numGreater dayNum 31 \<or>
      numLess hourNum 0 \<or> numGreater hourNum 23 \<or>
      numLess minuteNum 0 \<or> numGreater minuteNum 59 \<or>
      numLess secondNum 0 \<or> numGreater secondNum 59)"

definition parseTransactionDateTry :: "runtime \<Rightarrow> string \<Rightarrow> exn + instant" where
  "parseTransactionDateTry rt dateStr =
     (if dateStr = [] then Inl (Error (''Invalid date string provided: '' @ dateStr))
      else
        let cleanDateStr = trim dateStr in
        if length cleanDateStr = 14 then
          (let year = slice cleanDateStr 0 4;
               month = slice cleanDateStr 4 6;
               day = slice cleanDateStr 6 8;
               hour = slice cleanDateStr 8 10;
               minute = slice cleanDateStr 10 12;
               second = slice cleanDateStr 12 14;
               shown = year @ ''-'' @ month @ ''-'' @ day @ '' '' @ hour @ '':'' @ minute @ '':'' @ second
           in if invalidComponents (parseInt year) (parseInt month) (parseInt day)
                   (parseInt hour) (parseInt minute) (parseInt second)
              then Inl (Error (''Invalid date components: '' @ shown))
              else
                let isoString = year @ ''-'' @ month @ ''-'' @ day @ ''T'' @ hour @ '':'' @ minute
                                  @ '':'' @ second @ ''+03:00''
                in case newDateOfString rt isoString of
                     None \<Rightarrow> Inl (Error (''Failed to create valid date from: '' @ isoString))
                   | Some parsedDate \<Rightarrow> Inr parsedDate)
        else if length cleanDateStr = 10 then
          (case jsNumber cleanDateStr of
             JNaN \<Rightarrow> Inl (Error (''Invalid timestamp: '' @ cleanDateStr))
           | JInt timestamp \<Rightarrow>
               (case timeClip (timestamp * 1000) of
                  None \<Rightarrow> Inl (Error ''Invalid time value'')
                | Some date \<Rightarrow> Inr date)
           | JInexact \<Rightarrow>
               (case inexactDate rt cleanDateStr of
                  None \<Rightarrow> Inl (Error ''Invalid time value'')
                | Some date \<Rightarrow> Inr date))
        else Inl (Error (''Unexpected date format: '' @ [CHR 0x22] @ cleanDateStr @ [CHR 0x22]
                          @ '' (length: '' @ showNat (length cleanDateStr) @ '')'')))"

text \<open>
  \<open>parseTransactionDate\<close> itself: \<open>now\<close> is what \<open>new Date()\<close> gives in the \<open>catch\<close>
  block, the only place where the function reads the clock.
\<close>

definition parseTransactionDate :: "runtime \<Rightarrow> instant \<Rightarrow> string \<Rightarrow> instant" where
  "parseTransactionDate rt now dateStr =
     (case parseTransactionDateTry rt dateStr of
        Inr date \<Rightarrow> date
      | Inl error \<Rightarrow> now)"

text \<open>
  Callback metadata. A \<open>Value\<close> is a string or a number; numbers are modelled where
  they are whole.
\<close>

datatype jsValue = VStr string | VNum int

fun toString :: "runtime \<Rightarrow> jsValue \<Rightarrow> string" where
  "toString rt (VStr s) = s"
| "toString rt (VNum n) = numberString rt n"

fun toNumber :: "jsValue \<Rightarrow> jsnum" where
  "toNumber (VStr s) = jsNumber s"
| "toNumber (VNum n) = JInt n"

record CallbackItem =
  Name :: string
  Value :: jsValue

record ParsedMetadata =
  Amount :: "jsnum option"
  MpesaReceiptNumber :: "string option"
  Balance :: "jsnum option"
  TransactionDate :: "instant option"
  PhoneNumber :: "string option"
  otherFields :: "string \<rightharpoonup> jsValue"

definition emptyMetadata :: ParsedMetadata where
  "emptyMetadata =
     \<lparr>Amount = None, MpesaReceiptNumber = None, Balance = None, TransactionDate = None,
      PhoneNumber = None, otherFields = Map.empty\<rparr>"

text \<open>
  The wall clock is a sequence of readings \<open>clk 0, clk 1, ...\<close>; a counter says which
  reading comes next. Every place where the source may call \<open>new Date()\<close> or
  \<open>Date.now()\<close> takes a reading of its own; when the source does not reach the call,
  that reading is passed over.

  One step of the \<open>forEach\<close> in \<open>parseCallbackMetadata\<close>: an item with an empty
  \<open>Name\<close> is skipped; the five known names are coerced; any other name is stored as
  it is, a later value for a name replacing an earlier one. The assignment
  \<open>metadata[name] = value\<close> stores nothing under the name \<open>__proto__\<close>, where it
  reaches the setter of the prototype, which ignores a string or a number.
\<close>

definition parseItem ::
  "runtime \<Rightarrow> (nat \<Rightarrow> instant) \<Rightarrow> ParsedMetadata \<times> nat \<Rightarrow> CallbackItem \<Rightarrow> ParsedMetadata \<times> nat" where
  "parseItem rt clk acc item =
     (let metadata = fst acc; k = snd acc in
      if Name item = [] then (metadata, k)
      else
        let name = trim (Name item); v = Value item in
        if name = ''Amount'' then (metadata\<lparr>Amount := Some (toNumber v)\<rparr>, k)
        else if name = ''MpesaReceiptNumber''
          then (metadata\<lparr>MpesaReceiptNumber := Some (trim (toString rt v))\<rparr>, k)
        else if name = ''Balance'' then (metadata\<lparr>Balance := Some (toNumber v)\<rparr>, k)
        else if name = ''TransactionDate''
          then (metadata\<lparr>TransactionDate :=
                  Some (parseTransactionDate rt (clk k) (trim (toString rt v)))\<rparr>, Suc k)
        else if name = ''PhoneNumber''
          then (metadata\<lparr>PhoneNumber := Some (trim (toString rt v))\<rparr>, k)
        else if name = ''__proto__'' then (metadata, k)
        else (metadata\<lparr>otherFields := (otherFields metadata)(name \<mapsto> v)\<rparr>, k))"

definition parseCallbackMetadata ::
  "runtime \<Rightarrow> (nat \<Rightarrow> instant) \<Rightarrow> CallbackItem list \<Rightarrow> nat \<Rightarrow> ParsedMetadata \<times> nat" where
  "parseCallbackMetadata rt clk items k = foldl (parseItem rt clk) (emptyMetadata, k) items"

text \<open>
  \<open>retryOperation\<close>. The operation is given by the outcome of each of its calls
  (\<open>operation i\<close> for the call of attempt \<open>i\<close>), \<open>rnd i\<close> is the value of
  \<open>Math.random()\<close> drawn in attempt \<open>i\<close>, \<open>maxRetries\<close> is a whole number, and
  delays are real numbers. The result carries the outcome, the delays slept in order,
  and the number of calls made.
\<close>

record 'a retryRun =
  outcome :: "exn + 'a"
  slept :: "real list"
  calls :: nat

definition jitter :: "real \<Rightarrow> real" where
  "jitter r = 0.5 + r * 0.5"

definition backoffDelay :: "real \<Rightarrow> nat \<Rightarrow> real \<Rightarrow> real" where
  "backoffDelay baseDelay attempt r = baseDelay * 2 ^ (attempt - 1) * jitter r"

function retryLoop ::
  "(nat \<Rightarrow> 'e + 'a) \<Rightarrow> (nat \<Rightarrow> real) \<Rightarrow> nat \<Rightarrow> real \<Rightarrow> nat \<Rightarrow> real list \<Rightarrow> nat \<Rightarrow> 'a retryRun" where
  "retryLoop operation rnd maxRetries baseDelay attempt sl n =
     (if attempt \<le> maxRetries then
        (case operation attempt of
           Inr v \<Rightarrow> \<lparr>outcome = Inr v, slept = sl, calls = n + 1\<rparr>
         | Inl error \<Rightarrow>
             if attempt < maxRetries
             then retryLoop operation rnd maxRetries baseDelay (attempt + 1)
                    (sl @ [backoffDelay baseDelay attempt (rnd attempt)]) (n + 1)
             else retryLoop operation rnd maxRetries baseDelay (attempt + 1) sl (n + 1))
      else \<lparr>outcome = Inl (HttpException ''Operation failed after maximum retries'' NOT_FOUND),
             slept = sl, calls = n\<rparr>)"
  by pat_completeness auto
termination
  by (relation "measure (\<lambda>(operation, rnd, maxRetries, baseDelay, attempt, sl, n).
        Suc maxRetries - attempt)") auto

declare retryLoop.simps [simp del]

definition retryOperation ::
  "(nat \<Rightarrow> 'e + 'a) \<Rightarrow> (nat \<Rightarrow> real) \<Rightarrow> nat \<Rightarrow> real \<Rightarrow> 'a retryRun" where
  "retryOperation operation rnd maxRetries baseDelay =
     retryLoop operation rnd maxRetries baseDelay 1 [] 0"

section \<open>The ledger\<close>

datatype TransactionStatus = PENDING | SUCCESS | FAILED | CANCELLED | TIMEOUT

record MpesaTransaction =
  id_tx :: string
  merchantRequestID :: string
  checkoutRequestID :: string
  responseCode :: "string option"
  responseDescription :: "string option"
  customerMessage :: "string option"
  amount :: rat
  phoneNumber :: string
  accountReference :: string
  transactionDesc :: string
  mpesaReceiptNumber :: "string option"
  transactionDate :: "instant option"
  resultCode :: "int option"
  resultDesc :: "string option"
  status :: TransactionStatus
  createdAt :: instant
  updatedAt :: instant

text \<open>
  The table \<open>mpesa_transactions\<close> is a list of rows. \<open>findUnique\<close> looks a row up by
  its \<open>checkoutRequestID\<close>, \<open>create\<close> refuses a row that repeats a unique column, and
  \<open>update\<close> patches the row with the given \<open>checkoutRequestID\<close> or reports Prisma's
  \<open>P2025\<close> when there is none. The column is unique, so in a table that \<open>create\<close>
  has built at most one row has a given \<open>checkoutRequestID\<close>.
\<close>

definition findUnique :: "MpesaTransaction list \<Rightarrow> string \<Rightarrow> MpesaTransaction option" where
  "findUnique rows k = find (\<lambda>t. checkoutRequestID t = k) rows"

definition createRow :: "MpesaTransaction list \<Rightarrow> MpesaTransaction \<Rightarrow> MpesaTransaction list option" where
  "createRow rows t =
     (if list_ex (\<lambda>r. id_tx r = id_tx t \<or> merchantRequestID r = merchantRequestID t
                       \<or> checkoutRequestID r = checkoutRequestID t) rows
      then None else Some (rows @ [t]))"

record updateData =
  resultCode_upd :: int
  resultDesc_upd :: "string option"
  updatedAt_upd :: instant
  status_upd :: TransactionStatus
  mpesaReceiptNumber_upd :: "string option"
  transactionDate_upd :: "instant option"

text \<open>
  \<open>updateData\<close> always carries a result code, a result description (possibly
  \<open>null\<close>), \<open>updatedAt\<close> and a status; the receipt number and the transaction date are
  written only when the patch has them.
\<close>

definition applyUpdate :: "updateData \<Rightarrow> MpesaTransaction \<Rightarrow> MpesaTransaction" where
  "applyUpdate u t =
     t\<lparr>resultCode := Some (resultCode_upd u),
       resultDesc := resultDesc_upd u,
       updatedAt := updatedAt_upd u,
       status := status_upd u,
       mpesaReceiptNumber :=
         (case mpesaReceiptNumber_upd u of None \<Rightarrow> mpesaReceiptNumber t | Some r \<Rightarrow> Some r),
       transactionDate :=
         (case transactionDate_upd u of None \<Rightarrow> transactionDate t | Some d \<Rightarrow> Some d)\<rparr>"

definition updateRow :: "MpesaTransaction list \<Rightarrow> string \<Rightarrow> updateData \<Rightarrow> MpesaTransaction list option" where
  "updateRow rows k u =
     (if list_ex (\<lambda>t. checkoutRequestID t = k) rows
      then Some (map (\<lambda>t. if checkoutRequestID t = k then applyUpdate u t else t) rows)
      else None)"

section \<open>MpesaService\<close>

text \<open>
  The callback payload, as \<open>MpesaCallbackDto\<close> declares it. \<open>Body\<close>, \<open>stkCallback\<close>,
  \<open>CallbackMetadata\<close> and \<open>Item\<close> may be absent.
\<close>

record CallbackMetadata =
  Item :: "CallbackItem list option"

record StkCallback =
  MerchantRequestID :: string
  CheckoutRequestID :: string
  ResultCode :: int
  ResultDesc :: string
  CallbackMetadata :: "CallbackMetadata option"

record CallbackBody =
  stkCallback :: "StkCallback option"

record MpesaCallbackDto =
  Body :: "CallbackBody option"

text \<open>
  The request for a push payment (\<open>StkPushDto\<close>), what the gateway answers, and what
  the service sends. The payload's \<open>Timestamp\<close> and \<open>Password\<close> are left out: they
  come from \<open>getTimestamp\<close>, which reads the clock, and \<open>generatePassword\<close>, neither of
  which can fail, and nothing in the service depends on them.
\<close>

record StkPushDto =
  amount_dto :: rat
  phoneNumber_dto :: string
  accountReference_dto :: string
  transactionDesc_dto :: "string option"

record MpesaResponseDto =
  MerchantRequestID_resp :: string
  CheckoutRequestID_resp :: string
  ResponseCode :: string
  ResponseDescription :: string
  CustomerMessage :: string

record StkPushRequest =
  BusinessShortCode_req :: string
  TransactionType_req :: string
  Amount_req :: rat
  PartyA_req :: string
  PartyB_req :: string
  PhoneNumber_req :: string
  CallBackURL_req :: string
  AccountReference_req :: string
  TransactionDesc_req :: string

datatype gatewayCall = AuthCall | StkPushCall string StkPushRequest

text \<open>
  The gateway's answer to the token request is a failure of the call or a response,
  with or without an \<open>access_token\<close>; its answer to the push request is a failure of
  the call (with Axios's message) or a response body.
\<close>

datatype authReply = AuthFailed | AuthResponded "string option"

datatype stkReply = StkFailed string | StkResponded MpesaResponseDto

record MpesaConfig =
  businessShortCode :: string
  callbackUrl :: string

text \<open>
  The environment of one call of the service: the clock's readings, the engine, the
  configuration, the gateway's answers, whether the database fails the lookup, the
  update or the insertion, and the id and time the database gives a new row.
\<close>

record env =
  clock :: "nat \<Rightarrow> instant"
  engine :: runtime
  config :: MpesaConfig
  authReply :: authReply
  stkReply :: stkReply
  findFault :: bool
  updateFault :: bool
  createFault :: bool
  newRowId :: string
  newRowTime :: instant

text \<open>
  The state the service works on: its circuit breaker, the table, the number of clock
  readings taken so far, and the calls sent to the gateway so far.
\<close>

record world =
  circuitBreaker :: CircuitBreakerStatus
  mpesaTransaction :: "MpesaTransaction list"
  ticks :: nat
  sent :: "gatewayCall list"

definition serviceRecordSuccess :: "world \<Rightarrow> world" where
  "serviceRecordSuccess w = w\<lparr>circuitBreaker := recordSuccess (circuitBreaker w)\<rparr>"

definition serviceRecordFailure :: "env \<Rightarrow> world \<Rightarrow> world" where
  "serviceRecordFailure e w =
     w\<lparr>circuitBreaker :=
         recordFailure (clock e (ticks w)) (clock e (ticks w + 1)) (circuitBreaker w),
       ticks := ticks w + 2\<rparr>"

text \<open>
  \<open>getAccessToken\<close>: the call is sent; a failed call or a response without a token
  (absent or empty) is caught, recorded as a failure of the breaker, and rethrown as a
  503.
\<close>

definition getAccessToken :: "env \<Rightarrow> world \<Rightarrow> (exn + string) \<times> world" where
  "getAccessToken e w =
     (let w1 = w\<lparr>sent := sent w @ [AuthCall]\<rparr>;
          failed = (Inl (HttpException ''Failed to authenticate with M-Pesa API'' SERVICE_UNAVAILABLE),
                    serviceRecordFailure e w1)
      in case authReply e of
           AuthFailed \<Rightarrow> failed
         | AuthResponded None \<Rightarrow> failed
         | AuthResponded (Some token) \<Rightarrow> if token = [] then failed else (Inr token, w1))"

text \<open>
  \<open>saveTransaction\<close> swallows every failure of the insertion.
\<close>

definition saveTransaction :: "env \<Rightarrow> MpesaTransaction \<Rightarrow> world \<Rightarrow> world" where
  "saveTransaction e row w =
     (if createFault e then w
      else case createRow (mpesaTransaction w) row of
             None \<Rightarrow> w
           | Some rows \<Rightarrow> w\<lparr>mpesaTransaction := rows\<rparr>)"

text \<open>
  The \<open>try\<close> block of \<open>initiateStkPush\<close>. With the breaker \<open>OPEN\<close> and a
  \<open>nextAttemptTime\<close> still ahead the call is refused with a 503; otherwise an \<open>OPEN\<close>
  breaker becomes \<open>HALF_OPEN\<close> and the call goes on: token, timestamp (a clock
  reading), phone number, request, answer.
\<close>

definition orDefault :: "string \<Rightarrow> string \<Rightarrow> string" where
  "orDefault s d = (if s = [] then d else s)"

definition submitStkPush :: "env \<Rightarrow> StkPushDto \<Rightarrow> world \<Rightarrow> (exn + MpesaResponseDto) \<times> world" where
  "submitStkPush e stkPushData w =
     (case getAccessToken e w of
        (Inl err, w1) \<Rightarrow> (Inl err, w1)
      | (Inr accessToken, w1) \<Rightarrow>
          let w2 = w1\<lparr>ticks := ticks w1 + 1\<rparr> in
          (case formatPhoneNumber (phoneNumber_dto stkPushData) of
             Inl err \<Rightarrow> (Inl err, w2)
           | Inr formattedPhone \<Rightarrow>
               let reference = orDefault (accountReference_dto stkPushData) ''Payment'';
                   description =
                     (case transactionDesc_dto stkPushData of
                        None \<Rightarrow> ''Payment for services''
                      | Some d \<Rightarrow> orDefault d ''Payment for services'');
                   requestPayload =
                     \<lparr>BusinessShortCode_req = businessShortCode (config e),
                      TransactionType_req = ''CustomerPayBillOnline'',
                      Amount_req = amount_dto stkPushData,
                      PartyA_req = formattedPhone,
                      PartyB_req = businessShortCode (config e),
                      PhoneNumber_req = formattedPhone,
                      CallBackURL_req = callbackUrl (config e),
                      AccountReference_req = reference,
                      TransactionDesc_req = description\<rparr>;
                   w3 = w2\<lparr>sent := sent w2 @ [StkPushCall accessToken requestPayload]\<rparr>
               in (case stkReply e of
                     StkFailed msg \<Rightarrow> (Inl (Error msg), w3)
                   | StkResponded r \<Rightarrow>
                       if ResponseCode r = ''0'' then
                         (Inr r,
                          saveTransaction e
                            \<lparr>id_tx = newRowId e,
                             merchantRequestID = MerchantRequestID_resp r,
                             checkoutRequestID = CheckoutRequestID_resp r,
                             responseCode = Some (ResponseCode r),
                             responseDescription = Some (ResponseDescription r),
                             customerMessage = Some (CustomerMessage r),
                             amount = amount_dto stkPushData,
                             phoneNumber = formattedPhone,
                             accountReference = reference,
                             transactionDesc = description,
                             mpesaReceiptNumber = None,
                             transactionDate = None,
                             resultCode = None,
                             resultDesc = None,
                             status = PENDING,
                             createdAt = newRowTime e,
                             updatedAt = newRowTime e\<rparr>
                            (serviceRecordSuccess w3))
                       else
                         (Inl (HttpException (orDefault (ResponseDescription r) ''STK Push failed'')
                                 BAD_REQUEST), w3))))"

definition initiateStkPushTry :: "env \<Rightarrow> StkPushDto \<Rightarrow> world \<Rightarrow> (exn + MpesaResponseDto) \<times> world" where
  "initiateStkPushTry e stkPushData w =
     (let cb = circuitBreaker w in
      if state cb = OPEN then
        (case nextAttemptTime cb of
           None \<Rightarrow> submitStkPush e stkPushData (w\<lparr>circuitBreaker := cb\<lparr>state := HALF_OPEN\<rparr>\<rparr>)
         | Some t \<Rightarrow>
             if clock e (ticks w) < t
             then (Inl (HttpException ''M-Pesa service temporarily unavailable'' SERVICE_UNAVAILABLE),
                   w\<lparr>ticks := ticks w + 1\<rparr>)
             else submitStkPush e stkPushData
                    (w\<lparr>circuitBreaker := cb\<lparr>state := HALF_OPEN\<rparr>, ticks := ticks w + 1\<rparr>))
      else submitStkPush e stkPushData w)"

text \<open>
  \<open>initiateStkPush\<close>: whatever the \<open>try\<close> block throws is caught, recorded as a
  failure of the breaker, and rethrown, as it is when it is an \<open>HttpException\<close> and as
  a 500 otherwise.
\<close>

definition initiateStkPush :: "env \<Rightarrow> StkPushDto \<Rightarrow> world \<Rightarrow> (exn + MpesaResponseDto) \<times> world" where
  "initiateStkPush e stkPushData w =
     (case initiateStkPushTry e stkPushData w of
        (Inr r, w1) \<Rightarrow> (Inr r, w1)
      | (Inl err, w1) \<Rightarrow>
          (Inl (if isHttpException err then err
                else HttpException ''Failed to initiate STK Push'' INTERNAL_SERVER_ERROR),
           serviceRecordFailure e w1))"

text \<open>
  The status \<open>handleCallback\<close> computes from a result code.
\<close>

definition statusOfResultCode :: "int \<Rightarrow> TransactionStatus" where
  "statusOfResultCode c =
     (if c = 0 then SUCCESS
      else if c = 1032 then CANCELLED
      else if c = 1037 then TIMEOUT
      else FAILED)"

definition metadataItems :: "StkCallback \<Rightarrow> CallbackItem list option" where
  "metadataItems cb = (case CallbackMetadata cb of None \<Rightarrow> None | Some m \<Rightarrow> Item m)"

text \<open>
  The patch \<open>handleCallback\<close> prepares, from clock reading \<open>k\<close> on; the second
  component is the next reading. A receipt number is taken from the metadata when it
  is not empty; a transaction date is taken from the metadata when it has one and from
  the clock otherwise. A success without an item list gets the current time and a
  placeholder receipt \<open>FALLBACK_\<close> followed by the current time in milliseconds.
\<close>

definition prepareUpdate :: "env \<Rightarrow> StkCallback \<Rightarrow> nat \<Rightarrow> updateData \<times> nat" where
  "prepareUpdate e cb k =
     (let code = ResultCode cb;
          desc = (if ResultDesc cb = [] then None else Some (ResultDesc cb))
      in if code = 0 then
           (case metadataItems cb of
              Some items \<Rightarrow>
                let parsed = parseCallbackMetadata (engine e) (clock e) items (Suc k);
                    metadata = fst parsed; k1 = snd parsed
                in (\<lparr>resultCode_upd = code, resultDesc_upd = desc, updatedAt_upd = clock e k,
                     status_upd = SUCCESS,
                     mpesaReceiptNumber_upd =
                       (case MpesaReceiptNumber metadata of
                          None \<Rightarrow> None
                        | Some r \<Rightarrow> if r = [] then None else Some r),
                     transactionDate_upd =
                       (case TransactionDate metadata of
                          None \<Rightarrow> Some (clock e k1)
                        | Some d \<Rightarrow> Some d)\<rparr>, Suc k1)
            | None \<Rightarrow>
                (\<lparr>resultCode_upd = code, resultDesc_upd = desc, updatedAt_upd = clock e k,
                  status_upd = SUCCESS,
                  mpesaReceiptNumber_upd = Some (''FALLBACK_'' @ numberString (engine e) (clock e (k + 2))),
                  transactionDate_upd = Some (clock e (k + 1))\<rparr>, k + 3))
         else
           (\<lparr>resultCode_upd = code, resultDesc_upd = desc, updatedAt_upd = clock e k,
             status_upd = (if code = 1032 then CANCELLED
                           else if code = 1037 then TIMEOUT
                           else FAILED),
             mpesaReceiptNumber_upd = None,
             transactionDate_upd = None\<rparr>, Suc k))"

text \<open>
  The \<open>try\<close> block of \<open>handleCallback\<close>: the envelope is checked, the transaction is
  looked up (a failure of the lookup is rethrown as it is), the patch is prepared and
  written. A failure of the write is a 404 when Prisma says \<open>P2025\<close> and a 500
  otherwise.
\<close>

definition handleCallbackTry :: "env \<Rightarrow> MpesaCallbackDto \<Rightarrow> world \<Rightarrow> (exn + unit) \<times> world" where
  "handleCallbackTry e callbackData w =
     (case Body callbackData of
        None \<Rightarrow> (Inl (HttpException ''Invalid callback format: missing Body'' BAD_REQUEST), w)
      | Some body \<Rightarrow>
     (case stkCallback body of
        None \<Rightarrow> (Inl (HttpException ''Invalid callback format: missing stkCallback'' BAD_REQUEST), w)
      | Some cb \<Rightarrow>
          if findFault e then (Inl (Error ''database error''), w)
          else
            (case findUnique (mpesaTransaction w) (CheckoutRequestID cb) of
               None \<Rightarrow>
                 (Inl (HttpException
                         (''Transaction not found for CheckoutRequestID: '' @ CheckoutRequestID cb)
                         NOT_FOUND), w)
             | Some existingTransaction \<Rightarrow>
                 let prepared = prepareUpdate e cb (ticks w);
                     w1 = w\<lparr>ticks := snd prepared\<rparr>
                 in if updateFault e
                    then (Inl (HttpException ''Database update failed'' INTERNAL_SERVER_ERROR), w1)
                    else
                      (case updateRow (mpesaTransaction w1) (CheckoutRequestID cb) (fst prepared) of
                         None \<Rightarrow>
                           (Inl (HttpException (''Transaction not found: '' @ CheckoutRequestID cb)
                                   NOT_FOUND), w1)
                       | Some rows \<Rightarrow> (Inr (), w1\<lparr>mpesaTransaction := rows\<rparr>)))))"

definition handleCallback :: "env \<Rightarrow> MpesaCallbackDto \<Rightarrow> world \<Rightarrow> (exn + unit) \<times> world" where
  "handleCallback e callbackData w =
     (case handleCallbackTry e callbackData w of
        (Inr u, w1) \<Rightarrow> (Inr u, w1)
      | (Inl err, w1) \<Rightarrow>
          (Inl (if isHttpException err then err
                else HttpException ''Callback processing failed'' INTERNAL_SERVER_ERROR), w1))"

section \<open>Notions used in the statements\<close>

text \<open>
  The accepted forms of a phone number as the specification words them: ten digits
  with a leading 0, nine digits, the canonical form 254 and nine digits, and the
  canonical form behind a plus sign.
\<close>

definition specAcceptedForm :: "string \<Rightarrow> bool" where
  "specAcceptedForm p =
     ((list_all isDigit p \<and>
        (length p = 9 \<or> (length p = 10 \<and> startsWith p ''0'')
         \<or> (length p = 12 \<and> startsWith p ''254'')))
      \<or> (length p = 13 \<and> startsWith p ''+254'' \<and> list_all isDigit (drop 1 p)))"

text \<open>The shapes \<open>formatPhoneNumber\<close> accepts, on the digits it keeps.\<close>

definition digitsAccepted :: "string \<Rightarrow> bool" where
  "digitsAccepted c =
     ((startsWith c ''0'' \<and> length c = 10) \<or> (startsWith c ''254'' \<and> length c = 12)
      \<or> length c = 9)"

text \<open>
  The breaker does not refuse a call unless it is \<open>OPEN\<close> with a \<open>nextAttemptTime\<close>
  later than the clock's next reading.
\<close>

definition notRefused :: "env \<Rightarrow> world \<Rightarrow> bool" where
  "notRefused e w =
     (\<not> (state (circuitBreaker w) = OPEN \<and>
          (case nextAttemptTime (circuitBreaker w) of
             None \<Rightarrow> False
           | Some t \<Rightarrow> clock e (ticks w) < t)))"

text \<open>The token request fails: the call fails, or the response carries no token.\<close>

definition tokenMissing :: "env \<Rightarrow> bool" where
  "tokenMissing e =
     (case authReply e of
        AuthFailed \<Rightarrow> True
      | AuthResponded None \<Rightarrow> True
      | AuthResponded (Some t) \<Rightarrow> t = [])"

text \<open>The breaker as a call that is let through finds it: \<open>OPEN\<close> has become \<open>HALF_OPEN\<close>.\<close>

definition afterGate :: "CircuitBreakerStatus \<Rightarrow> CircuitBreakerStatus" where
  "afterGate cb = (if state cb = OPEN then cb\<lparr>state := HALF_OPEN\<rparr> else cb)"

text \<open>Concrete inputs for the examples below.\<close>

definition plainEngine :: runtime where
  "plainEngine =
     \<lparr>legacyDate = (\<lambda>s. None), inexactDate = (\<lambda>s. None), bigNumberString = (\<lambda>n. ''1e+21'')\<rparr>"

definition demoResponse :: MpesaResponseDto where
  "demoResponse =
     \<lparr>MerchantRequestID_resp = ''29115-34620561-1'',
      CheckoutRequestID_resp = ''ws_CO_191220191020363925'',
      ResponseCode = ''0'',
      ResponseDescription = ''Success. Request accepted for processing'',
      CustomerMessage = ''Success. Request accepted for processing''\<rparr>"

definition demoEnv :: env where
  "demoEnv =
     \<lparr>clock = (\<lambda>k. 1000 * int k),
      engine = plainEngine,
      config = \<lparr>businessShortCode = ''174379'', callbackUrl = ''https://example.com/api/mpesa/callback''\<rparr>,
      authReply = AuthResponded (Some ''token''),
      stkReply = StkResponded demoResponse,
      findFault = False, updateFault = False, createFault = False,
      newRowId = ''row1'', newRowTime = 0\<rparr>"

definition demoRequest :: StkPushDto where
  "demoRequest =
     \<lparr>amount_dto = 100, phoneNumber_dto = ''0712345678'', accountReference_dto = ''ORDER123'',
      transactionDesc_dto = None\<rparr>"

definition freshWorld :: world where
  "freshWorld = \<lparr>circuitBreaker = initialBreaker, mpesaTransaction = [], ticks = 0, sent = []\<rparr>"

text \<open>A callback with its envelope: the payload holds the \<open>stkCallback\<close> \<open>cb\<close>.\<close>

definition envelope :: "MpesaCallbackDto \<Rightarrow> StkCallback \<Rightarrow> bool" where
  "envelope callbackData cb =
     (case Body callbackData of
        None \<Rightarrow> False
      | Some body \<Rightarrow> stkCallback body = Some cb)"

text \<open>The states in which a transaction is resolved.\<close>

definition terminal :: "TransactionStatus \<Rightarrow> bool" where
  "terminal s = (s \<noteq> PENDING)"

text \<open>More concrete inputs: a row, paid or pending, and callbacks for it.\<close>

definition demoRow :: MpesaTransaction where
  "demoRow =
     \<lparr>id_tx = ''row1'',
      merchantRequestID = ''29115-34620561-1'',
      checkoutRequestID = ''ws_CO_191220191020363925'',
      responseCode = Some ''0'',
      responseDescription = Some ''Success. Request accepted for processing'',
      customerMessage = Some ''Success. Request accepted for processing'',
      amount = 100,
      phoneNumber = ''254712345678'',
      accountReference = ''ORDER123'',
      transactionDesc = ''Payment for services'',
      mpesaReceiptNumber = None,
      transactionDate = None,
      resultCode = None,
      resultDesc = None,
      status = PENDING,
      createdAt = 0,
      updatedAt = 0\<rparr>"

definition paidRow :: MpesaTransaction where
  "paidRow =
     demoRow\<lparr>mpesaReceiptNumber := Some ''NLJ7RT61SV'', transactionDate := Some 1748768400000,
       resultCode := Some 0, resultDesc := Some ''The service request is processed successfully.'',
       status := SUCCESS\<rparr>"

definition callbackFor :: "int \<Rightarrow> string \<Rightarrow> CallbackMetadata option \<Rightarrow> MpesaCallbackDto" where
  "callbackFor code desc meta =
     \<lparr>Body = Some \<lparr>stkCallback = Some
        \<lparr>MerchantRequestID = ''29115-34620561-1'',
         CheckoutRequestID = ''ws_CO_191220191020363925'',
         ResultCode = code, ResultDesc = desc, CallbackMetadata = meta\<rparr>\<rparr>\<rparr>"

definition demoItems :: "CallbackItem list" where
  "demoItems =
     [\<lparr>Name = ''Amount'', Value = VNum 100\<rparr>,
      \<lparr>Name = ''MpesaReceiptNumber'', Value = VStr ''NLJ7RT61SV''\<rparr>,
      \<lparr>Name = ''TransactionDate'', Value = VNum 20250601120000\<rparr>,
      \<lparr>Name = ''PhoneNumber'', Value = VNum 254712345678\<rparr>]"





text \<open>
  The breaker after five failures in a row, recorded at the times 1 to 5, and a service
  whose clock reads 30000, 30001, 30002 on its first three readings and \<open>t + k\<close> on
  reading \<open>k\<close> from then on.
\<close>

definition trippedBreaker :: CircuitBreakerStatus where
  "trippedBreaker =
     recordFailure 5 5 (recordFailure 4 4 (recordFailure 3 3
       (recordFailure 2 2 (recordFailure 1 1 initialBreaker))))"

definition laterEnv :: "int \<Rightarrow> env" where
  "laterEnv t = demoEnv\<lparr>clock := (\<lambda>k. if k < 3 then 30000 + int k else t + int k)\<rparr>"

section \<open>Lemmas\<close>

subsection \<open>Phone numbers\<close>

lemma filter_digits_id: "list_all isDigit ds \<Longrightarrow> filter isDigit ds = ds"
  by (induction ds) auto

lemma plus_not_digit: "\<not> isDigit CHR ''+''"
  by (simp add: isDigit_def)

lemma digits_no_plus: "list_all isDigit c \<Longrightarrow> \<not> startsWith c ''+254''"
  by (cases c) (auto simp: startsWith_def plus_not_digit)

lemma filtered_no_plus: "\<not> startsWith (filter isDigit p) ''+254''"
  by (rule digits_no_plus) (simp add: list_all_iff)

lemma formatPhoneNumber_forms:
  assumes "length ds = 9" "list_all isDigit ds"
  shows "formatPhoneNumber ds = Inr (''254'' @ ds)"
    "formatPhoneNumber (''0'' @ ds) = Inr (''254'' @ ds)"
    "formatPhoneNumber (''254'' @ ds) = Inr (''254'' @ ds)"
    "formatPhoneNumber (''+254'' @ ds) = Inr (''254'' @ ds)"
  using assms digits_no_plus[of ds]
  by (simp_all add: formatPhoneNumber_def startsWith_def filter_digits_id Let_def isDigit_def)

lemma formatPhoneNumber_reject:
  "\<not> digitsAccepted (filter isDigit p) \<Longrightarrow>
   formatPhoneNumber p = Inl (Error (''Invalid phone number format: '' @ p))"
  using filtered_no_plus[of p]
  by (simp add: formatPhoneNumber_def digitsAccepted_def Let_def)

lemma formatPhoneNumber_accept:
  assumes "digitsAccepted (filter isDigit p)"
  shows "\<exists>r. formatPhoneNumber p = Inr r \<and> length r = 12 \<and> startsWith r ''254'' \<and> list_all isDigit r"
proof -
  let ?c = "filter isDigit p"
  have d: "list_all isDigit ?c" by (simp add: list_all_iff)
  have dd: "list_all isDigit (drop 1 ?c)"
    using d by (auto simp: list_all_iff dest: in_set_dropD)
  have k: "isDigit CHR ''2''" "isDigit CHR ''5''" "isDigit CHR ''4''"
    by (simp_all add: isDigit_def)
  from assms consider
      (zero) "startsWith ?c ''0''" "length ?c = 10"
          "formatPhoneNumber p = Inr (''254'' @ drop 1 ?c)"
    | (canonical) "startsWith ?c ''254''" "length ?c = 12" "formatPhoneNumber p = Inr ?c"
    | (bare) "length ?c = 9" "formatPhoneNumber p = Inr (''254'' @ ?c)"
    using filtered_no_plus[of p]
    by (auto simp: formatPhoneNumber_def digitsAccepted_def Let_def)
  then show ?thesis
    using d dd k by cases (auto simp: startsWith_def)
qed

lemma formatPhoneNumber_cleaned:
  shows "startsWith (filter isDigit p) ''0'' \<Longrightarrow> length (filter isDigit p) = 10 \<Longrightarrow>
           formatPhoneNumber p = Inr (''254'' @ drop 1 (filter isDigit p))"
    and "startsWith (filter isDigit p) ''254'' \<Longrightarrow> length (filter isDigit p) = 12 \<Longrightarrow>
           formatPhoneNumber p = Inr (filter isDigit p)"
    and "length (filter isDigit p) = 9 \<Longrightarrow> formatPhoneNumber p = Inr (''254'' @ filter isDigit p)"
    and "digitsAccepted (filter isDigit p) \<Longrightarrow>
           formatPhoneNumber p = formatPhoneNumber (filter isDigit p)"
proof -
  have plus: "\<not> startsWith (filter isDigit p) ''+254''"
    using filtered_no_plus[of p] .
  show "startsWith (filter isDigit p) ''0'' \<Longrightarrow> length (filter isDigit p) = 10 \<Longrightarrow>
           formatPhoneNumber p = Inr (''254'' @ drop 1 (filter isDigit p))"
    by (simp add: formatPhoneNumber_def Let_def)
  show "startsWith (filter isDigit p) ''254'' \<Longrightarrow> length (filter isDigit p) = 12 \<Longrightarrow>
           formatPhoneNumber p = Inr (filter isDigit p)"
    by (simp add: formatPhoneNumber_def Let_def)
  show "length (filter isDigit p) = 9 \<Longrightarrow> formatPhoneNumber p = Inr (''254'' @ filter isDigit p)"
    using plus by (simp add: formatPhoneNumber_def Let_def)
  show "digitsAccepted (filter isDigit p) \<Longrightarrow>
           formatPhoneNumber p = formatPhoneNumber (filter isDigit p)"
    using plus by (auto simp: formatPhoneNumber_def digitsAccepted_def Let_def)
qed

lemma formatPhoneNumber_error:
  "formatPhoneNumber p = Inl err \<Longrightarrow> err = Error (''Invalid phone number format: '' @ p)"
  by (auto simp: formatPhoneNumber_def Let_def split: if_splits)

subsection \<open>The breaker\<close>

lemma failures_recordFailure: "failures (recordFailure a b cb) = failures cb + 1"
  by (simp add: recordFailure_def Let_def)

lemma state_recordFailure:
  "state (recordFailure a b cb) = (if failures cb + 1 \<ge> maxFailures then OPEN else state cb)"
  by (simp add: recordFailure_def Let_def)

lemma next_recordFailure:
  "nextAttemptTime (recordFailure a b cb) =
     (if failures cb + 1 \<ge> maxFailures then Some (b + resetTimeout) else nextAttemptTime cb)"
  by (simp add: recordFailure_def Let_def)

lemma last_recordFailure: "lastFailureTime (recordFailure a b cb) = Some a"
  by (simp add: recordFailure_def Let_def)

lemma breaker_serviceRecordFailure:
  "circuitBreaker (serviceRecordFailure e w) =
     recordFailure (clock e (ticks w)) (clock e (ticks w + 1)) (circuitBreaker w)"
  by (simp add: serviceRecordFailure_def)

lemma ticks_serviceRecordFailure: "ticks (serviceRecordFailure e w) = ticks w + 2"
  by (simp add: serviceRecordFailure_def)

lemma sent_serviceRecordFailure: "sent (serviceRecordFailure e w) = sent w"
  by (simp add: serviceRecordFailure_def)

lemma failures_serviceRecordFailure:
  "failures (circuitBreaker (serviceRecordFailure e w)) = failures (circuitBreaker w) + 1"
  by (simp add: serviceRecordFailure_def failures_recordFailure)

subsection \<open>Initiation\<close>

lemma getAccessToken_fails:
  "tokenMissing e \<Longrightarrow> getAccessToken e w =
     (Inl (HttpException ''Failed to authenticate with M-Pesa API'' SERVICE_UNAVAILABLE),
      serviceRecordFailure e (w\<lparr>sent := sent w @ [AuthCall]\<rparr>))"
  by (auto simp: getAccessToken_def tokenMissing_def Let_def split: authReply.splits option.splits)

lemma getAccessToken_ok:
  "authReply e = AuthResponded (Some tok) \<Longrightarrow> tok \<noteq> [] \<Longrightarrow>
   getAccessToken e w = (Inr tok, w\<lparr>sent := sent w @ [AuthCall]\<rparr>)"
  by (simp add: getAccessToken_def Let_def)

lemma submit_auth_fails:
  "tokenMissing e \<Longrightarrow> submitStkPush e d w =
     (Inl (HttpException ''Failed to authenticate with M-Pesa API'' SERVICE_UNAVAILABLE),
      serviceRecordFailure e (w\<lparr>sent := sent w @ [AuthCall]\<rparr>))"
  by (simp add: submitStkPush_def getAccessToken_fails)

lemma init_auth_fails:
  assumes "tokenMissing e" "notRefused e w"
  shows "fst (initiateStkPush e d w) =
           Inl (HttpException ''Failed to authenticate with M-Pesa API'' SERVICE_UNAVAILABLE)"
    and "failures (circuitBreaker (snd (initiateStkPush e d w))) = failures (circuitBreaker w) + 2"
    and "sent (snd (initiateStkPush e d w)) = sent w @ [AuthCall]"
  using assms
  by (auto simp: initiateStkPush_def initiateStkPushTry_def submit_auth_fails notRefused_def Let_def
      failures_serviceRecordFailure sent_serviceRecordFailure split: option.splits)

lemma init_auth_fails_breaker:
  assumes "tokenMissing e" "state (circuitBreaker w) \<noteq> OPEN"
  shows "circuitBreaker (snd (initiateStkPush e d w)) =
           recordFailure (clock e (ticks w + 2)) (clock e (ticks w + 3))
             (recordFailure (clock e (ticks w)) (clock e (ticks w + 1)) (circuitBreaker w))"
  using assms
  by (simp add: initiateStkPush_def initiateStkPushTry_def submit_auth_fails Let_def
      breaker_serviceRecordFailure ticks_serviceRecordFailure numeral_eq_Suc)

lemma three_auth_failures:
  assumes "tokenMissing e" "state (circuitBreaker w) = CLOSED" "failures (circuitBreaker w) = 0"
  shows "state (circuitBreaker (snd (initiateStkPush e d (snd (initiateStkPush e d w))))) = CLOSED"
    and "state (circuitBreaker (snd (initiateStkPush e d (snd (initiateStkPush e d
            (snd (initiateStkPush e d w))))))) = OPEN"
proof -
  let ?w1 = "snd (initiateStkPush e d w)"
  let ?w2 = "snd (initiateStkPush e d ?w1)"
  let ?w3 = "snd (initiateStkPush e d ?w2)"
  have s1: "state (circuitBreaker ?w1) = CLOSED" "failures (circuitBreaker ?w1) = 2"
    using assms
    by (simp_all add: init_auth_fails_breaker state_recordFailure failures_recordFailure
        maxFailures_def)
  have s2: "state (circuitBreaker ?w2) = CLOSED" "failures (circuitBreaker ?w2) = 4"
    using assms(1) s1
    by (simp_all add: init_auth_fails_breaker state_recordFailure failures_recordFailure
        maxFailures_def)
  have s3: "state (circuitBreaker ?w3) = OPEN"
    using assms(1) s2
    by (simp add: init_auth_fails_breaker state_recordFailure failures_recordFailure
        maxFailures_def)
  show "state (circuitBreaker ?w2) = CLOSED" by (rule s2)
  show "state (circuitBreaker ?w3) = OPEN" by (rule s3)
qed

lemma submit_bad_phone:
  assumes "authReply e = AuthResponded (Some tok)" "tok \<noteq> []"
    "formatPhoneNumber (phoneNumber_dto d) = Inl err"
  shows "submitStkPush e d w = (Inl err, w\<lparr>sent := sent w @ [AuthCall], ticks := ticks w + 1\<rparr>)"
  using assms by (simp add: submitStkPush_def getAccessToken_ok Let_def)

lemma init_bad_phone:
  assumes "notRefused e w" "authReply e = AuthResponded (Some tok)" "tok \<noteq> []"
    "formatPhoneNumber (phoneNumber_dto d) = Inl err"
  shows "fst (initiateStkPush e d w) =
           Inl (HttpException ''Failed to initiate STK Push'' INTERNAL_SERVER_ERROR)"
    and "sent (snd (initiateStkPush e d w)) = sent w @ [AuthCall]"
    and "failures (circuitBreaker (snd (initiateStkPush e d w))) = failures (circuitBreaker w) + 1"
    and "lastFailureTime (circuitBreaker (snd (initiateStkPush e d w))) =
           Some (clock e (ticks (snd (initiateStkPush e d w)) - 2))"
    and "circuitBreaker (snd (initiateStkPush e d w)) =
           recordFailure (clock e (ticks (snd (initiateStkPush e d w)) - 2))
             (clock e (ticks (snd (initiateStkPush e d w)) - 1)) (afterGate (circuitBreaker w))"
  using assms formatPhoneNumber_error[OF assms(4)]
  by (auto simp: initiateStkPush_def initiateStkPushTry_def submit_bad_phone[OF assms(2,3,4)]
      notRefused_def Let_def afterGate_def breaker_serviceRecordFailure ticks_serviceRecordFailure
      sent_serviceRecordFailure failures_recordFailure last_recordFailure split: option.splits)

lemma sent_saveTransaction: "sent (saveTransaction e row w) = sent w"
  by (simp add: saveTransaction_def split: option.splits)

lemma submit_sends_auth:
  "\<exists>rest. sent (snd (submitStkPush e d w)) = sent w @ AuthCall # rest"
  by (auto simp: submitStkPush_def getAccessToken_def Let_def sent_serviceRecordFailure
      sent_saveTransaction serviceRecordSuccess_def
      split: authReply.splits option.splits sum.splits stkReply.splits)

lemma sent_initiateStkPush:
  "sent (snd (initiateStkPush e d w)) = sent (snd (initiateStkPushTry e d w))"
  by (simp add: initiateStkPush_def sent_serviceRecordFailure split: prod.splits sum.splits)

lemma init_refused:
  assumes "state (circuitBreaker w) = OPEN" "nextAttemptTime (circuitBreaker w) = Some t"
    "clock e (ticks w) < t"
  shows "initiateStkPush e d w =
           (Inl (HttpException ''M-Pesa service temporarily unavailable'' SERVICE_UNAVAILABLE),
            serviceRecordFailure e (w\<lparr>ticks := ticks w + 1\<rparr>))"
  using assms by (simp add: initiateStkPush_def initiateStkPushTry_def Let_def)

lemma init_probe:
  assumes "state (circuitBreaker w) = OPEN" "nextAttemptTime (circuitBreaker w) = Some t"
    "t \<le> clock e (ticks w)"
  shows "initiateStkPushTry e d w =
           submitStkPush e d
             (w\<lparr>circuitBreaker := (circuitBreaker w)\<lparr>state := HALF_OPEN\<rparr>, ticks := ticks w + 1\<rparr>)"
  using assms by (simp add: initiateStkPushTry_def Let_def)

lemma five_failures:
  "state (recordFailure d5 n5 (recordFailure d4 n4 (recordFailure d3 n3
            (recordFailure d2 n2 (recordFailure d1 n1 cb))))) = OPEN"
  "nextAttemptTime (recordFailure d5 n5 (recordFailure d4 n4 (recordFailure d3 n3
            (recordFailure d2 n2 (recordFailure d1 n1 cb))))) = Some (n5 + 60000)"
  by (simp_all add: state_recordFailure next_recordFailure failures_recordFailure maxFailures_def
      resetTimeout_def)

lemma init_refused_facts:
  assumes "state (circuitBreaker w) = OPEN" "nextAttemptTime (circuitBreaker w) = Some t"
    "clock e (ticks w) < t"
  shows "fst (initiateStkPush e d w)
          = Inl (HttpException ''M-Pesa service temporarily unavailable'' SERVICE_UNAVAILABLE)"
    and "sent (snd (initiateStkPush e d w)) = sent w"
    and "mpesaTransaction (snd (initiateStkPush e d w)) = mpesaTransaction w"
    and "circuitBreaker (snd (initiateStkPush e d w))
            = recordFailure (clock e (ticks w + 1)) (clock e (ticks w + 2)) (circuitBreaker w)"
    and "state (circuitBreaker (snd (initiateStkPush e d w))) = OPEN"
    and "nextAttemptTime (circuitBreaker (snd (initiateStkPush e d w))) \<noteq> None"
    and "ticks (snd (initiateStkPush e d w)) = ticks w + 3"
    and "maxFailures \<le> failures (circuitBreaker w) + 1 \<Longrightarrow>
           nextAttemptTime (circuitBreaker (snd (initiateStkPush e d w)))
             = Some (clock e (ticks w + 2) + resetTimeout)"
  using assms
  by (simp_all add: init_refused[OF assms] serviceRecordFailure_def state_recordFailure
      next_recordFailure)

lemma init_probe_facts:
  assumes "state (circuitBreaker w) = OPEN" "nextAttemptTime (circuitBreaker w) = Some t"
    "t \<le> clock e (ticks w)"
  shows "initiateStkPushTry e d w
          = submitStkPush e d
              (w\<lparr>circuitBreaker := (circuitBreaker w)\<lparr>state := HALF_OPEN\<rparr>, ticks := ticks w + 1\<rparr>)"
    and "take (Suc (length (sent w))) (sent (snd (initiateStkPush e d w))) = sent w @ [AuthCall]"
proof -
  let ?w1 = "w\<lparr>circuitBreaker := (circuitBreaker w)\<lparr>state := HALF_OPEN\<rparr>, ticks := ticks w + 1\<rparr>"
  show eq: "initiateStkPushTry e d w = submitStkPush e d ?w1"
    by (rule init_probe[OF assms])
  obtain rest where "sent (snd (submitStkPush e d ?w1)) = sent ?w1 @ AuthCall # rest"
    using submit_sends_auth by blast
  then have "sent (snd (initiateStkPush e d w)) = sent w @ AuthCall # rest"
    by (simp add: sent_initiateStkPush eq)
  then show "take (Suc (length (sent w))) (sent (snd (initiateStkPush e d w))) = sent w @ [AuthCall]"
    by simp
qed

lemma after_refusal:
  assumes "state (circuitBreaker w) = OPEN" "nextAttemptTime (circuitBreaker w) = Some t"
    "clock e (ticks w) < t" "5 \<le> failures (circuitBreaker w) + 1"
  shows "nextAttemptTime (circuitBreaker (snd (initiateStkPush e d w)))
           = Some (clock e (ticks w + 2) + 60000)"
    and "ticks (snd (initiateStkPush e d w)) = ticks w + 3"
    and "clock e (ticks w + 3) < clock e (ticks w + 2) + 60000 \<Longrightarrow>
           fst (initiateStkPush e dd (snd (initiateStkPush e d w)))
             = Inl (HttpException ''M-Pesa service temporarily unavailable'' SERVICE_UNAVAILABLE)
           \<and> sent (snd (initiateStkPush e dd (snd (initiateStkPush e d w)))) = sent w"
    and "clock e (ticks w + 2) + 60000 \<le> clock e (ticks w + 3) \<Longrightarrow>
           take (Suc (length (sent w)))
             (sent (snd (initiateStkPush e dd (snd (initiateStkPush e d w))))) = sent w @ [AuthCall]"
proof -
  let ?w1 = "snd (initiateStkPush e d w)"
  note r = init_refused_facts[OF assms(1,2,3), of d]
  have st: "state (circuitBreaker ?w1) = OPEN" by (rule r(5))
  show nx: "nextAttemptTime (circuitBreaker ?w1) = Some (clock e (ticks w + 2) + 60000)"
    using r(8) assms(4) by (simp add: maxFailures_def resetTimeout_def)
  show tk: "ticks ?w1 = ticks w + 3" by (rule r(7))
  show "fst (initiateStkPush e dd ?w1)
             = Inl (HttpException ''M-Pesa service temporarily unavailable'' SERVICE_UNAVAILABLE)
           \<and> sent (snd (initiateStkPush e dd ?w1)) = sent w"
    if "clock e (ticks w + 3) < clock e (ticks w + 2) + 60000"
  proof -
    have lt: "clock e (ticks ?w1) < clock e (ticks w + 2) + 60000"
      using that by (simp add: tk)
    show ?thesis
      using init_refused_facts(1,2)[OF st nx lt, of dd] r(2) by simp
  qed
  show "take (Suc (length (sent w))) (sent (snd (initiateStkPush e dd ?w1))) = sent w @ [AuthCall]"
    if "clock e (ticks w + 2) + 60000 \<le> clock e (ticks w + 3)"
  proof -
    have le: "clock e (ticks w + 2) + 60000 \<le> clock e (ticks ?w1)"
      using that by (simp add: tk)
    show ?thesis
      using init_probe_facts(2)[OF st nx le, of dd] r(2) by simp
  qed
qed

subsection \<open>Reconciliation\<close>

lemma find_list_ex: "find P xs = Some x \<Longrightarrow> list_ex P xs"
  by (induction xs) (auto split: if_splits)

lemma key_applyUpdate: "checkoutRequestID (applyUpdate u t) = checkoutRequestID t"
  by (simp add: applyUpdate_def)

lemma findUnique_patched:
  "findUnique (map (\<lambda>t. if checkoutRequestID t = k then applyUpdate u t else t) rows) k' =
     (if k' = k then map_option (applyUpdate u) (findUnique rows k) else findUnique rows k')"
  by (induction rows) (auto simp: findUnique_def key_applyUpdate)

lemma handleCallback_unknown:
  assumes "envelope callbackData cb"
    "findUnique (mpesaTransaction w) (CheckoutRequestID cb) = None"
  shows "snd (handleCallback e callbackData w) = w"
    and "\<not> findFault e \<Longrightarrow> fst (handleCallback e callbackData w) =
           Inl (HttpException
                 (''Transaction not found for CheckoutRequestID: '' @ CheckoutRequestID cb) NOT_FOUND)"
  using assms
  by (auto simp: handleCallback_def handleCallbackTry_def envelope_def split: option.splits)

lemma handleCallback_known:
  assumes "envelope callbackData cb"
    "findUnique (mpesaTransaction w) (CheckoutRequestID cb) = Some t"
    "\<not> findFault e" "\<not> updateFault e"
  shows "handleCallback e callbackData w =
           (Inr (),
            w\<lparr>ticks := snd (prepareUpdate e cb (ticks w)),
              mpesaTransaction :=
                map (\<lambda>r. if checkoutRequestID r = CheckoutRequestID cb
                          then applyUpdate (fst (prepareUpdate e cb (ticks w))) r else r)
                  (mpesaTransaction w)\<rparr>)"
  using assms find_list_ex[of "\<lambda>t. checkoutRequestID t = CheckoutRequestID cb" "mpesaTransaction w" t]
  by (auto simp: handleCallback_def handleCallbackTry_def envelope_def updateRow_def findUnique_def
      Let_def split: option.splits)

lemma status_prepareUpdate:
  "status_upd (fst (prepareUpdate e cb k)) = statusOfResultCode (ResultCode cb)"
  by (simp add: prepareUpdate_def statusOfResultCode_def Let_def split: option.splits)

lemma code_prepareUpdate: "resultCode_upd (fst (prepareUpdate e cb k)) = ResultCode cb"
  by (simp add: prepareUpdate_def Let_def split: option.splits)

lemma prepareUpdate_failure:
  "ResultCode cb \<noteq> 0 \<Longrightarrow>
     mpesaReceiptNumber_upd (fst (prepareUpdate e cb k)) = None
     \<and> transactionDate_upd (fst (prepareUpdate e cb k)) = None"
  by (simp add: prepareUpdate_def Let_def)

lemma prepareUpdate_success:
  assumes "ResultCode cb = 0" "metadataItems cb = Some items"
  shows "MpesaReceiptNumber (fst (parseCallbackMetadata (engine e) (clock e) items (Suc k))) = Some r
           \<Longrightarrow> r \<noteq> [] \<Longrightarrow> mpesaReceiptNumber_upd (fst (prepareUpdate e cb k)) = Some r"
    and "TransactionDate (fst (parseCallbackMetadata (engine e) (clock e) items (Suc k))) = Some dt
           \<Longrightarrow> transactionDate_upd (fst (prepareUpdate e cb k)) = Some dt"
  using assms by (simp_all add: prepareUpdate_def Let_def)

lemma statusOfResultCode_terminal: "terminal (statusOfResultCode c)"
  by (simp add: statusOfResultCode_def terminal_def)

subsection \<open>Evaluations on the concrete inputs\<close>

lemma demo_date: "parseTransactionDateTry plainEngine ''20250601120000'' = Inr 1748768400000"
  by (simp add: parseTransactionDateTry_def trim_def isWhiteSpace_def slice_def parseInt_def
      trimStart_def invalidComponents_def numLess_def numGreater_def newDateOfString_def isoEAT_def
      eatInstant_def daysFromCivil_def startsWith_def isDigit_def decimalValue_def digitVal_def
      Let_def)

lemma demo_metadata:
  "fst (parseCallbackMetadata plainEngine (\<lambda>k. 1000 * int k) demoItems (Suc 0))
     = emptyMetadata\<lparr>Amount := Some (JInt 100), MpesaReceiptNumber := Some ''NLJ7RT61SV'',
         TransactionDate := Some 1748768400000, PhoneNumber := Some ''254712345678''\<rparr>"
  by (simp add: parseCallbackMetadata_def demoItems_def parseItem_def emptyMetadata_def Let_def
      trim_def isWhiteSpace_def parseTransactionDate_def demo_date[unfolded trim_def]
      numberString_def showInt_def showNat.simps)

subsection \<open>Retries\<close>

lemma retryLoop_success:
  assumes "attempt \<le> k" "k \<le> maxRetries"
    "\<forall>i. attempt \<le> i \<and> i < k \<longrightarrow> isl (operation i)" "operation k = Inr v"
  shows "retryLoop operation rnd maxRetries baseDelay attempt sl n =
           \<lparr>outcome = Inr v,
            slept = sl @ map (\<lambda>i. backoffDelay baseDelay i (rnd i)) [attempt..<k],
            calls = n + (k - attempt) + 1\<rparr>"
  using assms
proof (induction "k - attempt" arbitrary: attempt sl n)
  case 0
  then have "attempt = k" by simp
  with 0 show ?case by (simp add: retryLoop.simps)
next
  case (Suc m)
  then have lt: "attempt < k" and le: "attempt < maxRetries" by simp_all
  from Suc.prems lt obtain err where err: "operation attempt = Inl err"
    by (cases "operation attempt") auto
  have step: "retryLoop operation rnd maxRetries baseDelay attempt sl n =
      retryLoop operation rnd maxRetries baseDelay (attempt + 1)
        (sl @ [backoffDelay baseDelay attempt (rnd attempt)]) (n + 1)"
    using le err by (subst retryLoop.simps) simp
  have "m = k - (attempt + 1)" using Suc.hyps(2) by simp
  from Suc.hyps(1)[OF this] Suc.prems lt
  have "retryLoop operation rnd maxRetries baseDelay (attempt + 1)
        (sl @ [backoffDelay baseDelay attempt (rnd attempt)]) (n + 1) =
      \<lparr>outcome = Inr v,
       slept = (sl @ [backoffDelay baseDelay attempt (rnd attempt)])
                 @ map (\<lambda>i. backoffDelay baseDelay i (rnd i)) [attempt + 1..<k],
       calls = n + 1 + (k - (attempt + 1)) + 1\<rparr>"
    by simp
  with step lt show ?case by (simp add: upt_conv_Cons)
qed

lemma retryLoop_exhausted:
  assumes "\<forall>i. attempt \<le> i \<and> i \<le> maxRetries \<longrightarrow> isl (operation i)"
  shows "retryLoop operation rnd maxRetries baseDelay attempt sl n =
           \<lparr>outcome = Inl (HttpException ''Operation failed after maximum retries'' NOT_FOUND),
            slept = sl @ map (\<lambda>i. backoffDelay baseDelay i (rnd i)) [attempt..<maxRetries],
            calls = n + (Suc maxRetries - attempt)\<rparr>"
  using assms
proof (induction "Suc maxRetries - attempt" arbitrary: attempt sl n)
  case 0
  then have "\<not> attempt \<le> maxRetries" by simp
  then show ?case by (simp add: retryLoop.simps)
next
  case (Suc m)
  then have le: "attempt \<le> maxRetries" by simp
  from Suc.prems le obtain err where err: "operation attempt = Inl err"
    by (cases "operation attempt") auto
  have m: "m = Suc maxRetries - (attempt + 1)" using Suc.hyps(2) by simp
  have rest: "\<forall>i. attempt + 1 \<le> i \<and> i \<le> maxRetries \<longrightarrow> isl (operation i)"
    using Suc.prems by simp
  show ?case
  proof (cases "attempt < maxRetries")
    case True
    have "retryLoop operation rnd maxRetries baseDelay attempt sl n =
      retryLoop operation rnd maxRetries baseDelay (attempt + 1)
        (sl @ [backoffDelay baseDelay attempt (rnd attempt)]) (n + 1)"
      using True err by (subst retryLoop.simps) simp
    with Suc.hyps(1)[OF m rest] True show ?thesis
      by (simp add: upt_conv_Cons)
  next
    case False
    with le have eq: "attempt = maxRetries" by simp
    have "retryLoop operation rnd maxRetries baseDelay attempt sl n =
      retryLoop operation rnd maxRetries baseDelay (attempt + 1) sl (n + 1)"
      using eq err by (subst retryLoop.simps) simp
    with Suc.hyps(1)[OF m rest] eq show ?thesis by simp
  qed
qed

lemma jitter_range: "0 \<le> r \<Longrightarrow> r < 1 \<Longrightarrow> 1 / 2 \<le> jitter r \<and> jitter r < 1"
  by (simp add: jitter_def)

subsection \<open>Digit strings\<close>


















subsection \<open>Transaction dates\<close>



















subsection \<open>Accepted initiations\<close>

lemma breaker_saveTransaction: "circuitBreaker (saveTransaction e row w) = circuitBreaker w"
  by (simp add: saveTransaction_def split: option.splits)

lemma init_accepted:
  assumes "authReply e = AuthResponded (Some tok)" "tok \<noteq> []"
    "formatPhoneNumber (phoneNumber_dto d) = Inr p"
    "stkReply e = StkResponded r" "ResponseCode r = ''0''"
    "state (circuitBreaker w) \<noteq> OPEN"
  shows "fst (initiateStkPush e d w) = Inr r"
    and "circuitBreaker (snd (initiateStkPush e d w)) = recordSuccess (circuitBreaker w)"
  using assms
  by (simp_all add: initiateStkPush_def initiateStkPushTry_def submitStkPush_def getAccessToken_ok
      Let_def breaker_saveTransaction serviceRecordSuccess_def)

section \<open>Claims\<close>

text \<open>
  C1, as the specification has it: once a transaction is in a terminal state, no later
  callback changes its status or its outcome fields. \<open>handleCallback\<close> writes its patch
  whatever the status of the row it found. Here a paid transaction, \<open>SUCCESS\<close> with its
  receipt, gets a second callback with result code 1032 and ends up \<open>CANCELLED\<close>.
\<close>

theorem C1_terminal_state_overwritten:
  "map status (mpesaTransaction (freshWorld\<lparr>mpesaTransaction := [paidRow]\<rparr>)) = [SUCCESS]
   \<and> map resultCode (mpesaTransaction (freshWorld\<lparr>mpesaTransaction := [paidRow]\<rparr>)) = [Some 0]
   \<and> fst (handleCallback demoEnv (callbackFor 1032 ''Request cancelled by user'' None)
            (freshWorld\<lparr>mpesaTransaction := [paidRow]\<rparr>)) = Inr ()
   \<and> map status (mpesaTransaction (snd (handleCallback demoEnv
            (callbackFor 1032 ''Request cancelled by user'' None)
            (freshWorld\<lparr>mpesaTransaction := [paidRow]\<rparr>)))) = [CANCELLED]
   \<and> map resultCode (mpesaTransaction (snd (handleCallback demoEnv
            (callbackFor 1032 ''Request cancelled by user'' None)
            (freshWorld\<lparr>mpesaTransaction := [paidRow]\<rparr>)))) = [Some 1032]"
  by (simp add: handleCallback_def handleCallbackTry_def callbackFor_def freshWorld_def
      paidRow_def demoRow_def demoEnv_def findUnique_def updateRow_def prepareUpdate_def
      applyUpdate_def Let_def)

text \<open>
  C1, amended: a callback that \<open>handleCallback\<close> processes for a known
  transaction, whatever the transaction's status, terminal or not, overwrites the
  status with the one its own \<open>ResultCode\<close> determines, which is a terminal state
  and never \<open>PENDING\<close>, and overwrites the result code, the result description
  and \<open>updatedAt\<close> with its own. The transaction's identity and request attributes
  stay as they were, and so does every other transaction.
\<close>

theorem C1_callback_overwrites_with_terminal:
  assumes "envelope callbackData cb"
    and "findUnique (mpesaTransaction w) (CheckoutRequestID cb) = Some t"
    and "\<not> findFault e" and "\<not> updateFault e"
  shows "\<exists>t'. findUnique (mpesaTransaction (snd (handleCallback e callbackData w)))
                 (CheckoutRequestID cb) = Some t'
           \<and> status t' = statusOfResultCode (ResultCode cb)
           \<and> terminal (status t')
           \<and> resultCode t' = Some (ResultCode cb)
           \<and> resultDesc t' = (if ResultDesc cb = [] then None else Some (ResultDesc cb))
           \<and> updatedAt t' = clock e (ticks w)
           \<and> id_tx t' = id_tx t
           \<and> merchantRequestID t' = merchantRequestID t
           \<and> checkoutRequestID t' = checkoutRequestID t
           \<and> amount t' = amount t
           \<and> phoneNumber t' = phoneNumber t
           \<and> accountReference t' = accountReference t
           \<and> transactionDesc t' = transactionDesc t
           \<and> createdAt t' = createdAt t
           \<and> (\<forall>k. k \<noteq> CheckoutRequestID cb \<longrightarrow>
                 findUnique (mpesaTransaction (snd (handleCallback e callbackData w))) k
                   = findUnique (mpesaTransaction w) k)"
proof -
  let ?t' = "applyUpdate (fst (prepareUpdate e cb (ticks w))) t"
  have found: "findUnique (mpesaTransaction (snd (handleCallback e callbackData w)))
                 (CheckoutRequestID cb) = Some ?t'"
    using assms(2) by (simp add: handleCallback_known[OF assms] findUnique_patched)
  have others: "findUnique (mpesaTransaction (snd (handleCallback e callbackData w))) k
                  = findUnique (mpesaTransaction w) k" if "k \<noteq> CheckoutRequestID cb" for k
    using that by (simp add: handleCallback_known[OF assms] findUnique_patched)
  have st: "status ?t' = statusOfResultCode (ResultCode cb)"
    by (simp add: applyUpdate_def status_prepareUpdate)
  have outcome: "resultDesc ?t' = (if ResultDesc cb = [] then None else Some (ResultDesc cb))"
    "updatedAt ?t' = clock e (ticks w)"
    by (simp_all add: applyUpdate_def prepareUpdate_def Let_def split: option.splits)
  have rest: "resultCode ?t' = Some (ResultCode cb)" "id_tx ?t' = id_tx t"
    "merchantRequestID ?t' = merchantRequestID t" "checkoutRequestID ?t' = checkoutRequestID t"
    "amount ?t' = amount t" "phoneNumber ?t' = phoneNumber t"
    "accountReference ?t' = accountReference t" "transactionDesc ?t' = transactionDesc t"
    "createdAt ?t' = createdAt t"
    by (simp_all add: applyUpdate_def code_prepareUpdate)
  show ?thesis
    using found others st outcome rest statusOfResultCode_terminal[of "ResultCode cb"] by auto
qed

theorem C1_callback_overwrites_witness:
  "terminal (status paidRow)
   \<and> (\<exists>t'. findUnique (mpesaTransaction (snd (handleCallback demoEnv
               (callbackFor 1 ''The balance is insufficient for the transaction'' None)
               (freshWorld\<lparr>mpesaTransaction := [paidRow]\<rparr>)))) ''ws_CO_191220191020363925''
             = Some t'
         \<and> status t' = FAILED \<and> resultCode t' = Some 1 \<and> amount t' = 100)"
proof -
  define cb where "cb = \<lparr>MerchantRequestID = ''29115-34620561-1'',
         CheckoutRequestID = ''ws_CO_191220191020363925'',
         ResultCode = 1, ResultDesc = ''The balance is insufficient for the transaction'',
         CallbackMetadata = None\<rparr>"
  define w where "w = freshWorld\<lparr>mpesaTransaction := [paidRow]\<rparr>"
  define dto where "dto = callbackFor 1 ''The balance is insufficient for the transaction'' None"
  have env: "envelope dto cb"
    by (simp add: envelope_def callbackFor_def cb_def dto_def)
  have known: "findUnique (mpesaTransaction w) (CheckoutRequestID cb) = Some paidRow"
    by (simp add: findUnique_def w_def cb_def paidRow_def demoRow_def)
  have nf: "\<not> findFault demoEnv" "\<not> updateFault demoEnv"
    by (simp_all add: demoEnv_def)
  have facts: "ResultCode cb = 1" "CheckoutRequestID cb = ''ws_CO_191220191020363925''"
    "amount paidRow = 100" "terminal (status paidRow)"
    by (simp_all add: cb_def paidRow_def demoRow_def terminal_def)
  from C1_callback_overwrites_with_terminal[OF env known nf]
  obtain t' where "findUnique (mpesaTransaction (snd (handleCallback demoEnv dto w)))
                 (CheckoutRequestID cb) = Some t'"
    "status t' = statusOfResultCode (ResultCode cb)" "resultCode t' = Some (ResultCode cb)"
    "amount t' = amount paidRow"
    by blast
  then show ?thesis
    using facts unfolding dto_def w_def by (auto simp: statusOfResultCode_def)
qed

text \<open>
  C2, as the specification has it: an initiation that fails on an invalid phone number
  leaves the breaker as it was. It does not: the error is thrown inside the \<open>try\<close>
  block of \<open>initiateStkPush\<close>, whose handler records a failure for whatever it
  catches. Here the breaker is fresh, the token arrives, the phone number is \<open>12345\<close>.
\<close>

theorem C2_invalid_phone_recorded:
  "formatPhoneNumber ''12345'' = Inl (Error ''Invalid phone number format: 12345'')
   \<and> circuitBreaker freshWorld
       = \<lparr>state = CLOSED, failures = 0, lastFailureTime = None, nextAttemptTime = None\<rparr>
   \<and> initiateStkPush demoEnv (demoRequest\<lparr>phoneNumber_dto := ''12345''\<rparr>) freshWorld
       = (Inl (HttpException ''Failed to initiate STK Push'' INTERNAL_SERVER_ERROR),
          \<lparr>circuitBreaker =
             \<lparr>state = CLOSED, failures = 1, lastFailureTime = Some 1000, nextAttemptTime = None\<rparr>,
           mpesaTransaction = [], ticks = 3, sent = [AuthCall]\<rparr>)"
  by (simp add: formatPhoneNumber_def isDigit_def startsWith_def freshWorld_def initialBreaker_def
      initiateStkPush_def initiateStkPushTry_def submitStkPush_def getAccessToken_def demoEnv_def
      demoRequest_def serviceRecordFailure_def recordFailure_def maxFailures_def Let_def
      INTERNAL_SERVER_ERROR_def)

text \<open>
  C2, amended: an initiation that the breaker lets through, that obtains its token and
  that fails on an invalid phone number is recorded as one failure of the breaker. The
  caller gets the error of status 500, the payment request is not sent, the failure
  counter goes up by exactly one and \<open>lastFailureTime\<close> becomes the time of the
  failure. The breaker is what \<open>recordFailure\<close>, at the two readings of the clock it
  takes, makes of the breaker the call found (in \<open>HALF_OPEN\<close> if the call found it
  \<open>OPEN\<close>): when the counter reaches 5 it is \<open>OPEN\<close> with \<open>nextAttemptTime\<close> 60 seconds
  after the time of the failure, and below 5 its state and \<open>nextAttemptTime\<close> are
  not touched by the failure.
\<close>

theorem C2_invalid_phone_counts_once:
  assumes "notRefused e w"
    and "authReply e = AuthResponded (Some tok)" and "tok \<noteq> []"
    and "formatPhoneNumber (phoneNumber_dto d) = Inl err"
  shows "fst (initiateStkPush e d w)
           = Inl (HttpException ''Failed to initiate STK Push'' INTERNAL_SERVER_ERROR)
         \<and> sent (snd (initiateStkPush e d w)) = sent w @ [AuthCall]
         \<and> failures (circuitBreaker (snd (initiateStkPush e d w)))
             = failures (circuitBreaker w) + 1
         \<and> lastFailureTime (circuitBreaker (snd (initiateStkPush e d w)))
             = Some (clock e (ticks (snd (initiateStkPush e d w)) - 2))
         \<and> circuitBreaker (snd (initiateStkPush e d w))
             = recordFailure (clock e (ticks (snd (initiateStkPush e d w)) - 2))
                 (clock e (ticks (snd (initiateStkPush e d w)) - 1))
                 (afterGate (circuitBreaker w))
         \<and> (5 \<le> failures (circuitBreaker w) + 1 \<longrightarrow>
              state (circuitBreaker (snd (initiateStkPush e d w))) = OPEN
              \<and> nextAttemptTime (circuitBreaker (snd (initiateStkPush e d w)))
                  = Some (clock e (ticks (snd (initiateStkPush e d w)) - 1) + 60000))
         \<and> (failures (circuitBreaker w) + 1 < 5 \<longrightarrow>
              state (circuitBreaker (snd (initiateStkPush e d w)))
                = state (afterGate (circuitBreaker w))
              \<and> nextAttemptTime (circuitBreaker (snd (initiateStkPush e d w)))
                  = nextAttemptTime (circuitBreaker w))
         \<and> ticks w + 2 \<le> ticks (snd (initiateStkPush e d w))"
proof -
  note r = init_bad_phone[OF assms]
  have f: "failures (afterGate (circuitBreaker w)) = failures (circuitBreaker w)"
    and n: "nextAttemptTime (afterGate (circuitBreaker w)) = nextAttemptTime (circuitBreaker w)"
    by (simp_all add: afterGate_def)
  have opened: "state (circuitBreaker (snd (initiateStkPush e d w))) = OPEN
      \<and> nextAttemptTime (circuitBreaker (snd (initiateStkPush e d w)))
          = Some (clock e (ticks (snd (initiateStkPush e d w)) - 1) + 60000)"
    if "5 \<le> failures (circuitBreaker w) + 1"
    using that f by (subst (1 2) r(5)) (simp add: recordFailure_def maxFailures_def resetTimeout_def)
  have kept: "state (circuitBreaker (snd (initiateStkPush e d w)))
                = state (afterGate (circuitBreaker w))
      \<and> nextAttemptTime (circuitBreaker (snd (initiateStkPush e d w)))
          = nextAttemptTime (circuitBreaker w)"
    if "failures (circuitBreaker w) + 1 < 5"
    using that f n by (subst (1 2) r(5)) (simp add: recordFailure_def maxFailures_def)
  have t: "ticks w + 2 \<le> ticks (snd (initiateStkPush e d w))"
    using assms
    by (auto simp: initiateStkPush_def initiateStkPushTry_def submit_bad_phone[OF assms(2,3,4)]
        notRefused_def Let_def ticks_serviceRecordFailure split: option.splits)
  show ?thesis using r opened kept t by blast
qed

theorem C2_invalid_phone_witness:
  "notRefused demoEnv freshWorld
   \<and> formatPhoneNumber (phoneNumber_dto (demoRequest\<lparr>phoneNumber_dto := ''12345''\<rparr>))
       = Inl (Error ''Invalid phone number format: 12345'')
   \<and> failures (circuitBreaker (snd (initiateStkPush demoEnv
        (demoRequest\<lparr>phoneNumber_dto := ''12345''\<rparr>) freshWorld))) = 1
   \<and> sent (snd (initiateStkPush demoEnv
        (demoRequest\<lparr>phoneNumber_dto := ''12345''\<rparr>) freshWorld)) = [AuthCall]
   \<and> state (circuitBreaker (snd (initiateStkPush demoEnv
        (demoRequest\<lparr>phoneNumber_dto := ''12345''\<rparr>) freshWorld))) = CLOSED
   \<and> notRefused demoEnv (freshWorld\<lparr>circuitBreaker := initialBreaker\<lparr>failures := 4\<rparr>\<rparr>)
   \<and> state (circuitBreaker (snd (initiateStkPush demoEnv
        (demoRequest\<lparr>phoneNumber_dto := ''12345''\<rparr>)
        (freshWorld\<lparr>circuitBreaker := initialBreaker\<lparr>failures := 4\<rparr>\<rparr>)))) = OPEN
   \<and> nextAttemptTime (circuitBreaker (snd (initiateStkPush demoEnv
        (demoRequest\<lparr>phoneNumber_dto := ''12345''\<rparr>)
        (freshWorld\<lparr>circuitBreaker := initialBreaker\<lparr>failures := 4\<rparr>\<rparr>))))
       = Some (clock demoEnv (ticks (snd (initiateStkPush demoEnv
           (demoRequest\<lparr>phoneNumber_dto := ''12345''\<rparr>)
           (freshWorld\<lparr>circuitBreaker := initialBreaker\<lparr>failures := 4\<rparr>\<rparr>))) - 1) + 60000)"
proof -
  define w4 where "w4 = freshWorld\<lparr>circuitBreaker := initialBreaker\<lparr>failures := 4\<rparr>\<rparr>"
  have n: "notRefused demoEnv freshWorld"
    by (simp add: notRefused_def freshWorld_def initialBreaker_def)
  have n4: "notRefused demoEnv w4"
    by (simp add: w4_def notRefused_def freshWorld_def initialBreaker_def)
  have a: "authReply demoEnv = AuthResponded (Some ''token'')"
    by (simp add: demoEnv_def)
  have tk: "''token'' \<noteq> []"
    by simp
  have f: "formatPhoneNumber (phoneNumber_dto (demoRequest\<lparr>phoneNumber_dto := ''12345''\<rparr>))
             = Inl (Error ''Invalid phone number format: 12345'')"
    by (simp add: formatPhoneNumber_def isDigit_def startsWith_def)
  have fresh: "failures (circuitBreaker (snd (initiateStkPush demoEnv
        (demoRequest\<lparr>phoneNumber_dto := ''12345''\<rparr>) freshWorld))) = 1
      \<and> sent (snd (initiateStkPush demoEnv
        (demoRequest\<lparr>phoneNumber_dto := ''12345''\<rparr>) freshWorld)) = [AuthCall]
      \<and> state (circuitBreaker (snd (initiateStkPush demoEnv
        (demoRequest\<lparr>phoneNumber_dto := ''12345''\<rparr>) freshWorld))) = CLOSED"
  proof -
    note T = C2_invalid_phone_counts_once[OF n a tk f]
    note T2 = T[THEN conjunct2, THEN conjunct1]
    note T3 = T[THEN conjunct2, THEN conjunct2, THEN conjunct1]
    note T7 = T[THEN conjunct2, THEN conjunct2, THEN conjunct2, THEN conjunct2, THEN conjunct2,
        THEN conjunct2, THEN conjunct1]
    have c: "circuitBreaker freshWorld = initialBreaker" and s: "sent freshWorld = []"
      by (simp_all add: freshWorld_def)
    have "state (circuitBreaker (snd (initiateStkPush demoEnv
        (demoRequest\<lparr>phoneNumber_dto := ''12345''\<rparr>) freshWorld))) = CLOSED"
      using T7 by (simp add: c initialBreaker_def afterGate_def)
    then show ?thesis using T2 T3 by (simp add: c s initialBreaker_def)
  qed
  have fifth: "state (circuitBreaker (snd (initiateStkPush demoEnv
        (demoRequest\<lparr>phoneNumber_dto := ''12345''\<rparr>) w4))) = OPEN
      \<and> nextAttemptTime (circuitBreaker (snd (initiateStkPush demoEnv
        (demoRequest\<lparr>phoneNumber_dto := ''12345''\<rparr>) w4)))
       = Some (clock demoEnv (ticks (snd (initiateStkPush demoEnv
           (demoRequest\<lparr>phoneNumber_dto := ''12345''\<rparr>) w4)) - 1) + 60000)"
  proof -
    have c: "failures (circuitBreaker w4) = 4"
      by (simp add: w4_def)
    show ?thesis
      using C2_invalid_phone_counts_once[OF n4 a tk f, THEN conjunct2, THEN conjunct2,
          THEN conjunct2, THEN conjunct2, THEN conjunct2, THEN conjunct1]
      by (simp add: c)
  qed
  show ?thesis using n n4 f fresh fifth by (simp add: w4_def)
qed

text \<open>
  C3. A success recorded while the breaker is \<open>CLOSED\<close> leaves the whole breaker
  record, and so its failure counter, as it was. A success changes the breaker only when
  it is recorded in \<open>HALF_OPEN\<close>; it then sets the state to \<open>CLOSED\<close> and the counter
  to 0. The other mutator, \<open>recordFailure\<close>, never leaves the counter at 0, so a success
  in \<open>HALF_OPEN\<close> is the only way the counter is reset. Seen from outside: an
  initiation that the gateway accepts while the breaker is \<open>CLOSED\<close> returns the
  gateway's answer and leaves the breaker, failures included, as it found it.
\<close>

theorem C3_recordSuccess_closed_unchanged:
  "(state cb = CLOSED \<longrightarrow> recordSuccess cb = cb)
   \<and> (state cb = HALF_OPEN \<longrightarrow>
        state (recordSuccess cb) = CLOSED \<and> failures (recordSuccess cb) = 0
        \<and> lastFailureTime (recordSuccess cb) = lastFailureTime cb
        \<and> nextAttemptTime (recordSuccess cb) = nextAttemptTime cb)
   \<and> (recordSuccess cb \<noteq> cb \<longrightarrow> state cb = HALF_OPEN)
   \<and> failures (recordFailure tDate tNow cb) = failures cb + 1
   \<and> (state (circuitBreaker w) = CLOSED \<and> authReply e = AuthResponded (Some tok) \<and> tok \<noteq> []
        \<and> formatPhoneNumber (phoneNumber_dto d) = Inr p
        \<and> stkReply e = StkResponded r \<and> ResponseCode r = ''0'' \<longrightarrow>
        fst (initiateStkPush e d w) = Inr r
        \<and> circuitBreaker (snd (initiateStkPush e d w)) = circuitBreaker w)"
proof -
  have pure: "(state cb = CLOSED \<longrightarrow> recordSuccess cb = cb)
   \<and> (state cb = HALF_OPEN \<longrightarrow>
        state (recordSuccess cb) = CLOSED \<and> failures (recordSuccess cb) = 0
        \<and> lastFailureTime (recordSuccess cb) = lastFailureTime cb
        \<and> nextAttemptTime (recordSuccess cb) = nextAttemptTime cb)
   \<and> (recordSuccess cb \<noteq> cb \<longrightarrow> state cb = HALF_OPEN)
   \<and> failures (recordFailure tDate tNow cb) = failures cb + 1"
    by (simp add: recordSuccess_def recordFailure_def Let_def)
  have served: "fst (initiateStkPush e d w) = Inr r
        \<and> circuitBreaker (snd (initiateStkPush e d w)) = circuitBreaker w"
    if "state (circuitBreaker w) = CLOSED" "authReply e = AuthResponded (Some tok)" "tok \<noteq> []"
      "formatPhoneNumber (phoneNumber_dto d) = Inr p" "stkReply e = StkResponded r"
      "ResponseCode r = ''0''"
    using init_accepted[OF that(2,3,4,5,6), of w] that(1)
    by (simp add: recordSuccess_def)
  show ?thesis using pure served by blast
qed

theorem C3_recordSuccess_witness:
  "recordSuccess \<lparr>state = CLOSED, failures = 3, lastFailureTime = Some 7, nextAttemptTime = None\<rparr>
     = \<lparr>state = CLOSED, failures = 3, lastFailureTime = Some 7, nextAttemptTime = None\<rparr>
   \<and> recordSuccess \<lparr>state = HALF_OPEN, failures = 6, lastFailureTime = Some 7, nextAttemptTime = Some 9\<rparr>
     = \<lparr>state = CLOSED, failures = 0, lastFailureTime = Some 7, nextAttemptTime = Some 9\<rparr>
   \<and> circuitBreaker (snd (initiateStkPush demoEnv demoRequest
        (freshWorld\<lparr>circuitBreaker :=
           \<lparr>state = CLOSED, failures = 3, lastFailureTime = Some 7, nextAttemptTime = None\<rparr>\<rparr>)))
     = \<lparr>state = CLOSED, failures = 3, lastFailureTime = Some 7, nextAttemptTime = None\<rparr>"
proof -
  define cb3 where
    "cb3 = \<lparr>state = CLOSED, failures = 3, lastFailureTime = Some 7, nextAttemptTime = None\<rparr>"
  define cb6 where
    "cb6 = \<lparr>state = HALF_OPEN, failures = 6, lastFailureTime = Some 7, nextAttemptTime = Some 9\<rparr>"
  define w where "w = freshWorld\<lparr>circuitBreaker := cb3\<rparr>"
  have h: "state (circuitBreaker w) = CLOSED \<and> authReply demoEnv = AuthResponded (Some ''token'')
        \<and> ''token'' \<noteq> []
        \<and> formatPhoneNumber (phoneNumber_dto demoRequest) = Inr ''254712345678''
        \<and> stkReply demoEnv = StkResponded demoResponse \<and> ResponseCode demoResponse = ''0''"
    by (simp add: w_def cb3_def demoEnv_def demoRequest_def demoResponse_def formatPhoneNumber_def
        isDigit_def startsWith_def)
  note T = C3_recordSuccess_closed_unchanged[of cb3 7 7 w demoEnv "''token''" demoRequest
      "''254712345678''" demoResponse]
  note U = C3_recordSuccess_closed_unchanged[of cb6 7 7 w demoEnv "''token''" demoRequest
      "''254712345678''" demoResponse]
  have s3: "state cb3 = CLOSED" and s6: "state cb6 = HALF_OPEN"
    by (simp_all add: cb3_def cb6_def)
  have a: "recordSuccess cb3 = cb3"
    using T[THEN conjunct1, THEN mp, OF s3] .
  have b: "recordSuccess cb6
     = \<lparr>state = CLOSED, failures = 0, lastFailureTime = Some 7, nextAttemptTime = Some 9\<rparr>"
    using U[THEN conjunct2, THEN conjunct1, THEN mp, OF s6]
    by (simp add: cb6_def recordSuccess_def)
  have c: "circuitBreaker (snd (initiateStkPush demoEnv demoRequest w)) = cb3"
    using T[THEN conjunct2, THEN conjunct2, THEN conjunct2, THEN conjunct2, THEN mp, OF h]
    by (simp add: w_def)
  show ?thesis
    using a b c unfolding cb3_def cb6_def w_def by simp
qed

text \<open>
  C4, as the specification has it: five failures in a row leave the breaker \<open>OPEN\<close>
  with \<open>nextAttemptTime\<close> 60 seconds after the fifth; from then on every initiation
  before that time is refused without a call to the gateway, and the first one at or
  after that time is let through as a probe. The first part holds. The second does
  not, because a refusal is thrown inside the \<open>try\<close> block of \<open>initiateStkPush\<close>,
  whose handler records it as one more failure and so sets \<open>nextAttemptTime\<close> anew.
  Here the fifth failure sets 60005; an initiation at 30000 is refused and moves
  \<open>nextAttemptTime\<close> to 90002; the next initiation, at 61003, is the first one after
  60005, and it is refused like the one before it, with nothing sent to the gateway
  and the breaker still \<open>OPEN\<close>.
\<close>

theorem C4_refusal_moves_window:
  "trippedBreaker
     = \<lparr>state = OPEN, failures = 5, lastFailureTime = Some 5, nextAttemptTime = Some 60005\<rparr>
   \<and> clock (laterEnv 61000) 0 = 30000
   \<and> initiateStkPush (laterEnv 61000) demoRequest (freshWorld\<lparr>circuitBreaker := trippedBreaker\<rparr>)
       = (Inl (HttpException ''M-Pesa service temporarily unavailable'' SERVICE_UNAVAILABLE),
          \<lparr>circuitBreaker =
             \<lparr>state = OPEN, failures = 6, lastFailureTime = Some 30001,
                nextAttemptTime = Some 90002\<rparr>,
           mpesaTransaction = [], ticks = 3, sent = []\<rparr>)
   \<and> clock (laterEnv 61000) 3 = 61003
   \<and> initiateStkPush (laterEnv 61000) demoRequest
         \<lparr>circuitBreaker =
            \<lparr>state = OPEN, failures = 6, lastFailureTime = Some 30001,
               nextAttemptTime = Some 90002\<rparr>,
          mpesaTransaction = [], ticks = 3, sent = []\<rparr>
       = (Inl (HttpException ''M-Pesa service temporarily unavailable'' SERVICE_UNAVAILABLE),
          \<lparr>circuitBreaker =
             \<lparr>state = OPEN, failures = 7, lastFailureTime = Some 61004,
                nextAttemptTime = Some 121005\<rparr>,
           mpesaTransaction = [], ticks = 6, sent = []\<rparr>)"
proof -
  have cb: "trippedBreaker
     = \<lparr>state = OPEN, failures = 5, lastFailureTime = Some 5, nextAttemptTime = Some 60005\<rparr>"
    by (simp add: trippedBreaker_def recordFailure_def initialBreaker_def maxFailures_def
        resetTimeout_def Let_def)
  have c0: "clock (laterEnv 61000) 0 = 30000" and c3: "clock (laterEnv 61000) 3 = 61003"
    by (simp_all add: laterEnv_def)
  have first: "initiateStkPush (laterEnv 61000) demoRequest
        (freshWorld\<lparr>circuitBreaker := trippedBreaker\<rparr>)
       = (Inl (HttpException ''M-Pesa service temporarily unavailable'' SERVICE_UNAVAILABLE),
          \<lparr>circuitBreaker =
             \<lparr>state = OPEN, failures = 6, lastFailureTime = Some 30001,
                nextAttemptTime = Some 90002\<rparr>,
           mpesaTransaction = [], ticks = 3, sent = []\<rparr>)"
    by (simp add: cb freshWorld_def laterEnv_def initiateStkPush_def initiateStkPushTry_def
        serviceRecordFailure_def recordFailure_def maxFailures_def resetTimeout_def Let_def)
  have second: "initiateStkPush (laterEnv 61000) demoRequest
         \<lparr>circuitBreaker =
            \<lparr>state = OPEN, failures = 6, lastFailureTime = Some 30001,
               nextAttemptTime = Some 90002\<rparr>,
          mpesaTransaction = [], ticks = 3, sent = []\<rparr>
       = (Inl (HttpException ''M-Pesa service temporarily unavailable'' SERVICE_UNAVAILABLE),
          \<lparr>circuitBreaker =
             \<lparr>state = OPEN, failures = 7, lastFailureTime = Some 61004,
                nextAttemptTime = Some 121005\<rparr>,
           mpesaTransaction = [], ticks = 6, sent = []\<rparr>)"
    by (simp add: laterEnv_def initiateStkPush_def initiateStkPushTry_def
        serviceRecordFailure_def recordFailure_def maxFailures_def resetTimeout_def Let_def)
  show ?thesis using cb c0 first c3 second by simp
qed

text \<open>
  C4, amended: five recorded failures in a row leave the breaker \<open>OPEN\<close>, with
  \<open>nextAttemptTime\<close> 60 seconds after the clock reading of the fifth. While the
  breaker is \<open>OPEN\<close>, an initiation that reads a time before the \<open>nextAttemptTime\<close>
  the breaker has then fails at once with the 503 \<open>temporarily unavailable\<close> and
  sends nothing to the gateway; the refusal passes through the handler of
  \<open>initiateStkPush\<close> like any other error, so the breaker after it is
  \<open>recordFailure\<close> of the breaker before it, still \<open>OPEN\<close>, and, the counter being
  at 5 or more, with \<open>nextAttemptTime\<close> moved to 60 seconds after the refusal. The
  next initiation is judged against that time, not against the one the fifth failure
  set: before it, it is refused in the same way; at or after it, it is let through.
  An initiation that reads a time at or after the breaker's \<open>nextAttemptTime\<close> sets
  the breaker to \<open>HALF_OPEN\<close> and goes on from there: its first step, the token
  request, is sent.
\<close>

theorem C4_open_breaker_gates_calls:
  "(state (recordFailure d5 n5 (recordFailure d4 n4 (recordFailure d3 n3
       (recordFailure d2 n2 (recordFailure d1 n1 cb))))) = OPEN
    \<and> nextAttemptTime (recordFailure d5 n5 (recordFailure d4 n4 (recordFailure d3 n3
         (recordFailure d2 n2 (recordFailure d1 n1 cb))))) = Some (n5 + 60000))
   \<and> (state (circuitBreaker w) = OPEN \<and> nextAttemptTime (circuitBreaker w) = Some t
        \<and> clock e (ticks w) < t \<longrightarrow>
        fst (initiateStkPush e d w)
          = Inl (HttpException ''M-Pesa service temporarily unavailable'' SERVICE_UNAVAILABLE)
        \<and> sent (snd (initiateStkPush e d w)) = sent w
        \<and> mpesaTransaction (snd (initiateStkPush e d w)) = mpesaTransaction w
        \<and> circuitBreaker (snd (initiateStkPush e d w))
            = recordFailure (clock e (ticks w + 1)) (clock e (ticks w + 2)) (circuitBreaker w)
        \<and> state (circuitBreaker (snd (initiateStkPush e d w))) = OPEN
        \<and> nextAttemptTime (circuitBreaker (snd (initiateStkPush e d w))) \<noteq> None)
   \<and> (state (circuitBreaker w) = OPEN \<and> nextAttemptTime (circuitBreaker w) = Some t
        \<and> t \<le> clock e (ticks w) \<longrightarrow>
        initiateStkPushTry e d w
          = submitStkPush e d
              (w\<lparr>circuitBreaker := (circuitBreaker w)\<lparr>state := HALF_OPEN\<rparr>, ticks := ticks w + 1\<rparr>)
        \<and> take (Suc (length (sent w))) (sent (snd (initiateStkPush e d w))) = sent w @ [AuthCall])
   \<and> (state (circuitBreaker w) = OPEN \<and> nextAttemptTime (circuitBreaker w) = Some t
        \<and> clock e (ticks w) < t \<and> 5 \<le> failures (circuitBreaker w) + 1 \<longrightarrow>
        nextAttemptTime (circuitBreaker (snd (initiateStkPush e d w)))
          = Some (clock e (ticks w + 2) + 60000)
        \<and> ticks (snd (initiateStkPush e d w)) = ticks w + 3
        \<and> (clock e (ticks w + 3) < clock e (ticks w + 2) + 60000 \<longrightarrow>
             fst (initiateStkPush e d' (snd (initiateStkPush e d w)))
               = Inl (HttpException ''M-Pesa service temporarily unavailable'' SERVICE_UNAVAILABLE)
             \<and> sent (snd (initiateStkPush e d' (snd (initiateStkPush e d w)))) = sent w)
        \<and> (clock e (ticks w + 2) + 60000 \<le> clock e (ticks w + 3) \<longrightarrow>
             take (Suc (length (sent w)))
               (sent (snd (initiateStkPush e d' (snd (initiateStkPush e d w)))))
               = sent w @ [AuthCall]))"
proof -
  have refused: "fst (initiateStkPush e d w)
          = Inl (HttpException ''M-Pesa service temporarily unavailable'' SERVICE_UNAVAILABLE)
        \<and> sent (snd (initiateStkPush e d w)) = sent w
        \<and> mpesaTransaction (snd (initiateStkPush e d w)) = mpesaTransaction w
        \<and> circuitBreaker (snd (initiateStkPush e d w))
            = recordFailure (clock e (ticks w + 1)) (clock e (ticks w + 2)) (circuitBreaker w)
        \<and> state (circuitBreaker (snd (initiateStkPush e d w))) = OPEN
        \<and> nextAttemptTime (circuitBreaker (snd (initiateStkPush e d w))) \<noteq> None"
    if "state (circuitBreaker w) = OPEN" "nextAttemptTime (circuitBreaker w) = Some t"
      "clock e (ticks w) < t"
    using init_refused_facts(1-6)[OF that, of d] by blast
  have probe: "initiateStkPushTry e d w
          = submitStkPush e d
              (w\<lparr>circuitBreaker := (circuitBreaker w)\<lparr>state := HALF_OPEN\<rparr>, ticks := ticks w + 1\<rparr>)
        \<and> take (Suc (length (sent w))) (sent (snd (initiateStkPush e d w))) = sent w @ [AuthCall]"
    if "state (circuitBreaker w) = OPEN" "nextAttemptTime (circuitBreaker w) = Some t"
      "t \<le> clock e (ticks w)"
    using init_probe_facts[OF that, of d] by blast
  have moved: "nextAttemptTime (circuitBreaker (snd (initiateStkPush e d w)))
          = Some (clock e (ticks w + 2) + 60000)
        \<and> ticks (snd (initiateStkPush e d w)) = ticks w + 3
        \<and> (clock e (ticks w + 3) < clock e (ticks w + 2) + 60000 \<longrightarrow>
             fst (initiateStkPush e d' (snd (initiateStkPush e d w)))
               = Inl (HttpException ''M-Pesa service temporarily unavailable'' SERVICE_UNAVAILABLE)
             \<and> sent (snd (initiateStkPush e d' (snd (initiateStkPush e d w)))) = sent w)
        \<and> (clock e (ticks w + 2) + 60000 \<le> clock e (ticks w + 3) \<longrightarrow>
             take (Suc (length (sent w)))
               (sent (snd (initiateStkPush e d' (snd (initiateStkPush e d w)))))
               = sent w @ [AuthCall])"
    if "state (circuitBreaker w) = OPEN" "nextAttemptTime (circuitBreaker w) = Some t"
      "clock e (ticks w) < t" "5 \<le> failures (circuitBreaker w) + 1"
    using after_refusal(1,2)[OF that, where d = d]
      after_refusal(3,4)[OF that, where d = d and dd = d']
    by blast
  show ?thesis
    using five_failures[of d5 n5 d4 n4 d3 n3 d2 n2 d1 n1 cb] refused probe moved by blast
qed

theorem C4_open_breaker_witness:
  "circuitBreaker (snd (initiateStkPush demoEnv demoRequest
       (freshWorld\<lparr>circuitBreaker :=
          recordFailure 5 5 (recordFailure 4 4 (recordFailure 3 3
            (recordFailure 2 2 (recordFailure 1 1 initialBreaker))))\<rparr>)))
     = \<lparr>state = OPEN, failures = 6, lastFailureTime = Some 1000, nextAttemptTime = Some 62000\<rparr>
   \<and> sent (snd (initiateStkPush demoEnv demoRequest
       (freshWorld\<lparr>circuitBreaker :=
          recordFailure 5 5 (recordFailure 4 4 (recordFailure 3 3
            (recordFailure 2 2 (recordFailure 1 1 initialBreaker))))\<rparr>))) = []
   \<and> take 1 (sent (snd (initiateStkPush demoEnv demoRequest
       (freshWorld\<lparr>circuitBreaker :=
          recordFailure 5 5 (recordFailure 4 4 (recordFailure 3 3
            (recordFailure 2 2 (recordFailure 1 1 initialBreaker)))),
          ticks := 70\<rparr>)))) = [AuthCall]
   \<and> nextAttemptTime (circuitBreaker (snd (initiateStkPush (laterEnv 61000) demoRequest
       (freshWorld\<lparr>circuitBreaker := trippedBreaker\<rparr>)))) = Some 90002
   \<and> fst (initiateStkPush (laterEnv 61000) demoRequest
       (snd (initiateStkPush (laterEnv 61000) demoRequest
          (freshWorld\<lparr>circuitBreaker := trippedBreaker\<rparr>))))
       = Inl (HttpException ''M-Pesa service temporarily unavailable'' SERVICE_UNAVAILABLE)
   \<and> sent (snd (initiateStkPush (laterEnv 61000) demoRequest
       (snd (initiateStkPush (laterEnv 61000) demoRequest
          (freshWorld\<lparr>circuitBreaker := trippedBreaker\<rparr>))))) = []
   \<and> take 1 (sent (snd (initiateStkPush (laterEnv 95000) demoRequest
       (snd (initiateStkPush (laterEnv 95000) demoRequest
          (freshWorld\<lparr>circuitBreaker := trippedBreaker\<rparr>)))))) = [AuthCall]"
proof -
  define cb where "cb = recordFailure 5 5 (recordFailure 4 4 (recordFailure 3 3
            (recordFailure 2 2 (recordFailure 1 1 initialBreaker))))"
  define w1 where "w1 = freshWorld\<lparr>circuitBreaker := cb\<rparr>"
  define w2 where "w2 = freshWorld\<lparr>circuitBreaker := cb, ticks := 70\<rparr>"
  define w3 where "w3 = freshWorld\<lparr>circuitBreaker := trippedBreaker\<rparr>"
  have cb: "cb = \<lparr>state = OPEN, failures = 5, lastFailureTime = Some 5, nextAttemptTime = Some 60005\<rparr>"
    by (simp add: cb_def recordFailure_def initialBreaker_def maxFailures_def resetTimeout_def Let_def)
  have tb: "trippedBreaker = cb"
    by (simp add: trippedBreaker_def cb_def)
  have h1: "state (circuitBreaker w1) = OPEN \<and> nextAttemptTime (circuitBreaker w1) = Some 60005
            \<and> clock demoEnv (ticks w1) < 60005"
    by (simp add: w1_def cb freshWorld_def demoEnv_def)
  have h2: "state (circuitBreaker w2) = OPEN \<and> nextAttemptTime (circuitBreaker w2) = Some 60005
            \<and> 60005 \<le> clock demoEnv (ticks w2)"
    by (simp add: w2_def cb freshWorld_def demoEnv_def)
  have h3: "state (circuitBreaker w3) = OPEN \<and> nextAttemptTime (circuitBreaker w3) = Some 60005
            \<and> clock (laterEnv t) (ticks w3) < 60005 \<and> 5 \<le> failures (circuitBreaker w3) + 1" for t
    by (simp add: w3_def tb cb freshWorld_def laterEnv_def)
  have t3: "ticks w3 = 0" and s3: "sent w3 = []"
    by (simp_all add: w3_def freshWorld_def)
  have near: "clock (laterEnv 61000) (ticks w3 + 3) < clock (laterEnv 61000) (ticks w3 + 2) + 60000"
    and far: "clock (laterEnv 95000) (ticks w3 + 2) + 60000 \<le> clock (laterEnv 95000) (ticks w3 + 3)"
    and c2: "clock (laterEnv 61000) (Suc (Suc (ticks w3))) = 30002"
    by (simp_all add: t3 laterEnv_def)
  note T1 = C4_open_breaker_gates_calls[of 5 5 4 4 3 3 2 2 1 1 initialBreaker w1 60005 demoEnv
      demoRequest, THEN conjunct2, THEN conjunct1, THEN mp, OF h1]
  note T2 = C4_open_breaker_gates_calls[of 5 5 4 4 3 3 2 2 1 1 initialBreaker w2 60005 demoEnv
      demoRequest, THEN conjunct2, THEN conjunct2, THEN conjunct1, THEN mp, OF h2]
  note T3 = C4_open_breaker_gates_calls[of 5 5 4 4 3 3 2 2 1 1 initialBreaker w3 60005
      "laterEnv 61000" demoRequest demoRequest, THEN conjunct2, THEN conjunct2, THEN conjunct2,
      THEN mp, OF h3]
  note T4 = C4_open_breaker_gates_calls[of 5 5 4 4 3 3 2 2 1 1 initialBreaker w3 60005
      "laterEnv 95000" demoRequest demoRequest, THEN conjunct2, THEN conjunct2, THEN conjunct2,
      THEN mp, OF h3]
  have r1: "circuitBreaker (snd (initiateStkPush demoEnv demoRequest w1))
     = \<lparr>state = OPEN, failures = 6, lastFailureTime = Some 1000, nextAttemptTime = Some 62000\<rparr>"
    using T1
    by (simp add: w1_def cb freshWorld_def demoEnv_def recordFailure_def maxFailures_def
        resetTimeout_def Let_def)
  have r2: "sent (snd (initiateStkPush demoEnv demoRequest w1)) = []"
    using T1 by (simp add: w1_def freshWorld_def)
  have r3: "take 1 (sent (snd (initiateStkPush demoEnv demoRequest w2))) = [AuthCall]"
    using T2 by (simp add: w2_def freshWorld_def)
  have r4: "nextAttemptTime (circuitBreaker (snd (initiateStkPush (laterEnv 61000) demoRequest w3)))
      = Some 90002"
    using T3[THEN conjunct1] by (simp add: c2)
  have r5: "fst (initiateStkPush (laterEnv 61000) demoRequest
       (snd (initiateStkPush (laterEnv 61000) demoRequest w3)))
       = Inl (HttpException ''M-Pesa service temporarily unavailable'' SERVICE_UNAVAILABLE)
     \<and> sent (snd (initiateStkPush (laterEnv 61000) demoRequest
       (snd (initiateStkPush (laterEnv 61000) demoRequest w3)))) = []"
    using T3[THEN conjunct2, THEN conjunct2, THEN conjunct1, THEN mp, OF near] by (simp add: s3)
  have r6: "take 1 (sent (snd (initiateStkPush (laterEnv 95000) demoRequest
       (snd (initiateStkPush (laterEnv 95000) demoRequest w3))))) = [AuthCall]"
    using T4[THEN conjunct2, THEN conjunct2, THEN conjunct2, THEN mp, OF far] by (simp add: s3)
  show ?thesis
    using r1 r2 r3 r4 r5 r6 unfolding w1_def w2_def w3_def cb_def by blast
qed

text \<open>
  C5. A callback for a known transaction, with the lookup and the write going through,
  succeeds, and the stored status is the one its \<open>ResultCode\<close> determines: 0 gives
  \<open>SUCCESS\<close>, 1032 gives \<open>CANCELLED\<close>, 1037 gives \<open>TIMEOUT\<close>, every other code gives
  \<open>FAILED\<close>; the result code is stored with it. With code 0 and an item list, a
  receipt number that the parsed metadata holds (and that is not empty) and a
  transaction date that it holds are the ones stored; with any other code the stored
  receipt number and transaction date stay as they were.
\<close>

theorem C5_status_from_result_code:
  assumes "envelope callbackData cb"
    and "findUnique (mpesaTransaction w) (CheckoutRequestID cb) = Some t"
    and "\<not> findFault e" and "\<not> updateFault e"
  shows "fst (handleCallback e callbackData w) = Inr ()
         \<and> (\<exists>t'. findUnique (mpesaTransaction (snd (handleCallback e callbackData w)))
                    (CheckoutRequestID cb) = Some t'
              \<and> resultCode t' = Some (ResultCode cb)
              \<and> (ResultCode cb = 0 \<longrightarrow> status t' = SUCCESS)
              \<and> (ResultCode cb = 1032 \<longrightarrow> status t' = CANCELLED)
              \<and> (ResultCode cb = 1037 \<longrightarrow> status t' = TIMEOUT)
              \<and> (ResultCode cb \<noteq> 0 \<and> ResultCode cb \<noteq> 1032 \<and> ResultCode cb \<noteq> 1037
                   \<longrightarrow> status t' = FAILED)
              \<and> (\<forall>items r. ResultCode cb = 0 \<and> metadataItems cb = Some items
                     \<and> MpesaReceiptNumber
                          (fst (parseCallbackMetadata (engine e) (clock e) items (Suc (ticks w))))
                         = Some r \<and> r \<noteq> []
                   \<longrightarrow> mpesaReceiptNumber t' = Some r)
              \<and> (\<forall>items dt. ResultCode cb = 0 \<and> metadataItems cb = Some items
                     \<and> TransactionDate
                          (fst (parseCallbackMetadata (engine e) (clock e) items (Suc (ticks w))))
                         = Some dt
                   \<longrightarrow> transactionDate t' = Some dt)
              \<and> (ResultCode cb \<noteq> 0 \<longrightarrow>
                    mpesaReceiptNumber t' = mpesaReceiptNumber t
                    \<and> transactionDate t' = transactionDate t))"
proof -
  let ?u = "fst (prepareUpdate e cb (ticks w))"
  let ?t' = "applyUpdate ?u t"
  have run: "fst (handleCallback e callbackData w) = Inr ()"
    and found: "findUnique (mpesaTransaction (snd (handleCallback e callbackData w)))
                  (CheckoutRequestID cb) = Some ?t'"
    using assms(2) by (simp_all add: handleCallback_known[OF assms] findUnique_patched)
  have st: "status ?t' = statusOfResultCode (ResultCode cb)"
    by (simp add: applyUpdate_def status_prepareUpdate)
  have rc: "resultCode ?t' = Some (ResultCode cb)"
    by (simp add: applyUpdate_def code_prepareUpdate)
  have kept: "mpesaReceiptNumber ?t' = mpesaReceiptNumber t \<and> transactionDate ?t' = transactionDate t"
    if "ResultCode cb \<noteq> 0"
    using prepareUpdate_failure[OF that, of e "ticks w"] by (simp add: applyUpdate_def)
  have receipt: "mpesaReceiptNumber ?t' = Some r"
    if "ResultCode cb = 0" "metadataItems cb = Some items"
      "MpesaReceiptNumber (fst (parseCallbackMetadata (engine e) (clock e) items (Suc (ticks w))))
         = Some r" "r \<noteq> []" for items r
    using prepareUpdate_success(1)[OF that] by (simp add: applyUpdate_def)
  have date: "transactionDate ?t' = Some dt"
    if "ResultCode cb = 0" "metadataItems cb = Some items"
      "TransactionDate (fst (parseCallbackMetadata (engine e) (clock e) items (Suc (ticks w))))
         = Some dt" for items dt
    using prepareUpdate_success(2)[OF that] by (simp add: applyUpdate_def)
  have cases: "(ResultCode cb = 0 \<longrightarrow> status ?t' = SUCCESS)
      \<and> (ResultCode cb = 1032 \<longrightarrow> status ?t' = CANCELLED)
      \<and> (ResultCode cb = 1037 \<longrightarrow> status ?t' = TIMEOUT)
      \<and> (ResultCode cb \<noteq> 0 \<and> ResultCode cb \<noteq> 1032 \<and> ResultCode cb \<noteq> 1037
           \<longrightarrow> status ?t' = FAILED)"
    by (simp add: st statusOfResultCode_def)
  show ?thesis
    using run found rc cases kept receipt date by blast
qed

theorem C5_status_witness:
  "fst (handleCallback demoEnv
          (callbackFor 0 ''The service request is processed successfully.''
             (Some \<lparr>Item = Some demoItems\<rparr>))
          (freshWorld\<lparr>mpesaTransaction := [demoRow]\<rparr>)) = Inr ()
   \<and> (\<exists>t'. findUnique (mpesaTransaction (snd (handleCallback demoEnv
          (callbackFor 0 ''The service request is processed successfully.''
             (Some \<lparr>Item = Some demoItems\<rparr>))
          (freshWorld\<lparr>mpesaTransaction := [demoRow]\<rparr>)))) ''ws_CO_191220191020363925'' = Some t'
        \<and> status t' = SUCCESS \<and> mpesaReceiptNumber t' = Some ''NLJ7RT61SV''
        \<and> transactionDate t' = Some 1748768400000)"
proof -
  define cb where "cb = \<lparr>MerchantRequestID = ''29115-34620561-1'',
         CheckoutRequestID = ''ws_CO_191220191020363925'',
         ResultCode = 0, ResultDesc = ''The service request is processed successfully.'',
         CallbackMetadata = Some \<lparr>Item = Some demoItems\<rparr>\<rparr>"
  define w where "w = freshWorld\<lparr>mpesaTransaction := [demoRow]\<rparr>"
  define dto where "dto = callbackFor 0 ''The service request is processed successfully.''
             (Some \<lparr>Item = Some demoItems\<rparr>)"
  have env: "envelope dto cb"
    by (simp add: envelope_def callbackFor_def cb_def dto_def)
  have known: "findUnique (mpesaTransaction w) (CheckoutRequestID cb) = Some demoRow"
    by (simp add: findUnique_def w_def cb_def demoRow_def)
  have nf: "\<not> findFault demoEnv" "\<not> updateFault demoEnv"
    by (simp_all add: demoEnv_def)
  have code: "ResultCode cb = 0" and key: "CheckoutRequestID cb = ''ws_CO_191220191020363925''"
    and items: "metadataItems cb = Some demoItems"
    by (simp_all add: cb_def metadataItems_def)
  have tick: "Suc (ticks w) = Suc 0"
    by (simp add: w_def freshWorld_def)
  have eng: "engine demoEnv = plainEngine" "clock demoEnv = (\<lambda>k. 1000 * int k)"
    by (simp_all add: demoEnv_def)
  have receipt: "MpesaReceiptNumber (fst (parseCallbackMetadata (engine demoEnv) (clock demoEnv)
                    demoItems (Suc (ticks w)))) = Some ''NLJ7RT61SV''"
    and date: "TransactionDate (fst (parseCallbackMetadata (engine demoEnv) (clock demoEnv)
                    demoItems (Suc (ticks w)))) = Some 1748768400000"
    by (simp_all add: tick eng demo_metadata)
  from C5_status_from_result_code[OF env known nf]
  obtain t' where ok: "fst (handleCallback demoEnv dto w) = Inr ()"
    and t': "findUnique (mpesaTransaction (snd (handleCallback demoEnv dto w)))
               (CheckoutRequestID cb) = Some t'"
    and st: "ResultCode cb = 0 \<longrightarrow> status t' = SUCCESS"
    and r: "\<forall>items r. ResultCode cb = 0 \<and> metadataItems cb = Some items
             \<and> MpesaReceiptNumber
                  (fst (parseCallbackMetadata (engine demoEnv) (clock demoEnv) items (Suc (ticks w))))
                 = Some r \<and> r \<noteq> []
             \<longrightarrow> mpesaReceiptNumber t' = Some r"
    and d: "\<forall>items dt. ResultCode cb = 0 \<and> metadataItems cb = Some items
             \<and> TransactionDate
                  (fst (parseCallbackMetadata (engine demoEnv) (clock demoEnv) items (Suc (ticks w))))
                 = Some dt
             \<longrightarrow> transactionDate t' = Some dt"
    by blast
  have "status t' = SUCCESS" using st code by simp
  moreover have "mpesaReceiptNumber t' = Some ''NLJ7RT61SV''"
    using r code items receipt by blast
  moreover have "transactionDate t' = Some 1748768400000"
    using d code items date by blast
  ultimately show ?thesis
    using ok t' unfolding key dto_def w_def by blast
qed

text \<open>
  C6. A callback whose \<open>CheckoutRequestID\<close> is that of no stored transaction leaves
  the service's state, and with it the table, exactly as it was; when the lookup itself
  does not fail, the callback fails with the 404 \<open>Transaction not found\<close>.
\<close>

theorem C6_unknown_transaction_no_write:
  assumes "envelope callbackData cb"
    and "findUnique (mpesaTransaction w) (CheckoutRequestID cb) = None"
  shows "snd (handleCallback e callbackData w) = w
         \<and> (\<not> findFault e \<longrightarrow>
              fst (handleCallback e callbackData w)
                = Inl (HttpException
                        (''Transaction not found for CheckoutRequestID: '' @ CheckoutRequestID cb)
                        NOT_FOUND))"
  using handleCallback_unknown[OF assms] by blast

theorem C6_unknown_transaction_witness:
  "findUnique (mpesaTransaction freshWorld) ''ws_CO_191220191020363925'' = None
   \<and> handleCallback demoEnv (callbackFor 0 ''ok'' None) freshWorld
       = (Inl (HttpException
                ''Transaction not found for CheckoutRequestID: ws_CO_191220191020363925'' 404),
          freshWorld)"
proof -
  let ?cb = "\<lparr>MerchantRequestID = ''29115-34620561-1'',
         CheckoutRequestID = ''ws_CO_191220191020363925'',
         ResultCode = 0, ResultDesc = ''ok'', CallbackMetadata = None\<rparr>"
  have env: "envelope (callbackFor 0 ''ok'' None) ?cb"
    by (simp add: envelope_def callbackFor_def)
  have none: "findUnique (mpesaTransaction freshWorld) (CheckoutRequestID ?cb) = None"
    by (simp add: findUnique_def freshWorld_def)
  have nf: "\<not> findFault demoEnv"
    by (simp add: demoEnv_def)
  show ?thesis
    using C6_unknown_transaction_no_write[OF env none, of demoEnv] none nf
    by (simp add: NOT_FOUND_def prod_eq_iff)
qed




text \<open>
  C8. An operation that fails in attempts 1 to \<open>k - 1\<close> and succeeds in attempt
  \<open>k\<close>, with \<open>k\<close> at most \<open>maxRetries\<close>, is called \<open>k\<close> times and its value
  is returned. An operation that fails in every attempt up to \<open>maxRetries\<close> is called
  \<open>maxRetries\<close> times and the executor fails with its own error, the 404 \<open>Operation
  failed after maximum retries\<close>. In both cases a wait follows each failed attempt but
  the last of \<open>maxRetries\<close>: attempt \<open>i\<close> waits \<open>baseDelay * 2^(i-1) * jitter\<close>,
  where the jitter is one half plus half of the attempt's \<open>Math.random()\<close> and so
  lies in \<open>[0.5, 1)\<close>. It is as evenly spread there as \<open>Math.random()\<close> is in
  \<open>[0, 1)\<close>: the jitter falls in \<open>[a, b)\<close> exactly when the draw falls in
  \<open>[2a - 1, 2b - 1)\<close>, an interval twice as long. Delays are real numbers here, not
  doubles.
\<close>

theorem C8_retry_executor:
  "(1 \<le> k \<and> k \<le> maxRetries \<and> (\<forall>i. 1 \<le> i \<and> i < k \<longrightarrow> isl (operation i))
      \<and> operation k = Inr v \<longrightarrow>
      retryOperation operation rnd maxRetries baseDelay =
        \<lparr>outcome = Inr v,
         slept = map (\<lambda>i. backoffDelay baseDelay i (rnd i)) [1..<k],
         calls = k\<rparr>)
   \<and> ((\<forall>i. 1 \<le> i \<and> i \<le> maxRetries \<longrightarrow> isl (operation i)) \<longrightarrow>
      retryOperation operation rnd maxRetries baseDelay =
        \<lparr>outcome = Inl (HttpException ''Operation failed after maximum retries'' NOT_FOUND),
         slept = map (\<lambda>i. backoffDelay baseDelay i (rnd i)) [1..<maxRetries],
         calls = maxRetries\<rparr>)
   \<and> backoffDelay baseDelay i r = baseDelay * 2 ^ (i - 1) * jitter r
   \<and> jitter r = 1 / 2 + r / 2
   \<and> (0 \<le> r \<and> r < 1 \<longrightarrow> 1 / 2 \<le> jitter r \<and> jitter r < 1)
   \<and> ((a \<le> jitter r \<and> jitter r < b) = (2 * a - 1 \<le> r \<and> r < 2 * b - 1))"
proof -
  have ok: "retryOperation operation rnd maxRetries baseDelay =
        \<lparr>outcome = Inr v,
         slept = map (\<lambda>i. backoffDelay baseDelay i (rnd i)) [1..<k],
         calls = k\<rparr>"
    if "1 \<le> k" "k \<le> maxRetries" "\<forall>i. 1 \<le> i \<and> i < k \<longrightarrow> isl (operation i)"
      "operation k = Inr v"
    using retryLoop_success[OF that, of rnd baseDelay "[]" 0] that(1)
    by (simp add: retryOperation_def)
  have ex: "retryOperation operation rnd maxRetries baseDelay =
        \<lparr>outcome = Inl (HttpException ''Operation failed after maximum retries'' NOT_FOUND),
         slept = map (\<lambda>i. backoffDelay baseDelay i (rnd i)) [1..<maxRetries],
         calls = maxRetries\<rparr>"
    if "\<forall>i. 1 \<le> i \<and> i \<le> maxRetries \<longrightarrow> isl (operation i)"
    using retryLoop_exhausted[OF that, of rnd baseDelay "[]" 0]
    by (simp add: retryOperation_def)
  have j: "jitter r = 1 / 2 + r / 2"
    by (simp add: jitter_def)
  have u: "(a \<le> jitter r \<and> jitter r < b) = (2 * a - 1 \<le> r \<and> r < 2 * b - 1)"
    by (auto simp: jitter_def)
  show ?thesis
    using ok ex j u jitter_range[of r] by (simp add: backoffDelay_def)
qed

theorem C8_retry_witness:
  "retryOperation (\<lambda>i. if i < 3 then Inl () else Inr (42::nat)) (\<lambda>i. 1 / 2) 3 1000
     = \<lparr>outcome = Inr 42, slept = [750, 1500], calls = 3\<rparr>
   \<and> retryOperation (\<lambda>i. (Inl () :: unit + nat)) (\<lambda>i. 1 / 2) 3 1000
     = \<lparr>outcome = Inl (HttpException ''Operation failed after maximum retries'' 404),
        slept = [750, 1500], calls = 3\<rparr>"
proof -
  have up: "[Suc 0..<3] = [Suc 0, 2]"
    by (simp add: upt_conv_Cons)
  have d: "backoffDelay 1000 (Suc 0) (1 / 2) = 750" "backoffDelay 1000 2 (1 / 2) = 1500"
    by (simp_all add: backoffDelay_def jitter_def)
  have a: "retryOperation (\<lambda>i. if i < 3 then Inl () else Inr (42::nat)) (\<lambda>i. 1 / 2) 3 1000
     = \<lparr>outcome = Inr 42, slept = [750, 1500], calls = 3\<rparr>"
    using C8_retry_executor[of 3 3 "\<lambda>i. if i < 3 then Inl () else Inr (42::nat)" 42
        "\<lambda>i. 1 / 2" 1000 1 0]
    by (simp add: up d)
  have b: "retryOperation (\<lambda>i. (Inl () :: unit + nat)) (\<lambda>i. 1 / 2) 3 1000
     = \<lparr>outcome = Inl (HttpException ''Operation failed after maximum retries'' 404),
        slept = [750, 1500], calls = 3\<rparr>"
    using C8_retry_executor[of 1 3 "\<lambda>i. (Inl () :: unit + nat)" 0 "\<lambda>i. 1 / 2" 1000 1 0]
    by (simp add: up d NOT_FOUND_def)
  show ?thesis using a b by blast
qed

text \<open>
  C9, as the specification has it: phone normalisation sends \<open>0712345678\<close>,
  \<open>254712345678\<close> and \<open>+254712345678\<close> to \<open>254712345678\<close> and fails on every input
  that has none of the accepted forms. The examples hold, but the function accepts
  more than the four forms: it drops every character that is not a digit before it
  looks at the shape, so a text that is no phone number in any of the forms is
  accepted when nine digits are left.
\<close>

theorem C9_stray_characters_accepted:
  "\<not> specAcceptedForm ''call 712345678 now''
   \<and> formatPhoneNumber ''call 712345678 now'' = Inr ''254712345678''"
  by (simp add: specAcceptedForm_def formatPhoneNumber_def isDigit_def startsWith_def)

text \<open>
  C9, amended: phone normalisation sends \<open>0712345678\<close>, \<open>254712345678\<close> and
  \<open>+254712345678\<close> to \<open>254712345678\<close>; it sends each of the four forms built on nine
  digits \<open>ds\<close> to 254 followed by \<open>ds\<close>; and it decides on the digits of its input alone,
  the characters that are not digits removed. Ten digits led by 0 give 254 followed
  by the last nine of them, twelve digits led by 254 give those twelve digits, nine
  digits give 254 followed by them, so that an accepted input has the result of its
  digits; anything else fails with the invalid-phone-number error, which quotes the
  input as it was given (\<open>12345\<close> is such an input). Every result is 254 followed by
  nine digits.
\<close>

theorem C9_formatPhoneNumber_on_digits:
  "formatPhoneNumber ''0712345678'' = Inr ''254712345678''
   \<and> formatPhoneNumber ''254712345678'' = Inr ''254712345678''
   \<and> formatPhoneNumber ''+254712345678'' = Inr ''254712345678''
   \<and> formatPhoneNumber ''12345'' = Inl (Error ''Invalid phone number format: 12345'')
   \<and> (length ds = 9 \<and> list_all isDigit ds \<longrightarrow>
        formatPhoneNumber (''0'' @ ds) = Inr (''254'' @ ds)
        \<and> formatPhoneNumber ds = Inr (''254'' @ ds)
        \<and> formatPhoneNumber (''+254'' @ ds) = Inr (''254'' @ ds)
        \<and> formatPhoneNumber (''254'' @ ds) = Inr (''254'' @ ds))
   \<and> (\<not> digitsAccepted (filter isDigit p) \<longrightarrow>
        formatPhoneNumber p = Inl (Error (''Invalid phone number format: '' @ p)))
   \<and> (digitsAccepted (filter isDigit p) \<longrightarrow>
        (\<exists>r. formatPhoneNumber p = Inr r \<and> length r = 12 \<and> startsWith r ''254''
              \<and> list_all isDigit r))
   \<and> (startsWith (filter isDigit p) ''0'' \<and> length (filter isDigit p) = 10 \<longrightarrow>
        formatPhoneNumber p = Inr (''254'' @ drop 1 (filter isDigit p)))
   \<and> (startsWith (filter isDigit p) ''254'' \<and> length (filter isDigit p) = 12 \<longrightarrow>
        formatPhoneNumber p = Inr (filter isDigit p))
   \<and> (length (filter isDigit p) = 9 \<longrightarrow>
        formatPhoneNumber p = Inr (''254'' @ filter isDigit p))
   \<and> (digitsAccepted (filter isDigit p) \<longrightarrow>
        formatPhoneNumber p = formatPhoneNumber (filter isDigit p))"
proof -
  have examples:
    "formatPhoneNumber ''0712345678'' = Inr ''254712345678''"
    "formatPhoneNumber ''254712345678'' = Inr ''254712345678''"
    "formatPhoneNumber ''+254712345678'' = Inr ''254712345678''"
    "formatPhoneNumber ''12345'' = Inl (Error ''Invalid phone number format: 12345'')"
    by (simp_all add: formatPhoneNumber_def isDigit_def startsWith_def)
  show ?thesis
    using examples formatPhoneNumber_forms[of ds] formatPhoneNumber_reject[of p]
      formatPhoneNumber_accept[of p] formatPhoneNumber_cleaned[of p]
    by blast
qed

theorem C9_formatPhoneNumber_witness:
  "formatPhoneNumber ''0733000111'' = Inr ''254733000111''
   \<and> formatPhoneNumber ''+254733000111'' = Inr ''254733000111''
   \<and> formatPhoneNumber ''07330001'' = Inl (Error ''Invalid phone number format: 07330001'')
   \<and> formatPhoneNumber ''0733-000-111'' = Inr ''254733000111''
   \<and> formatPhoneNumber ''0733-000-111'' = formatPhoneNumber ''0733000111''
   \<and> formatPhoneNumber ''tel: 254 733 000 111'' = Inr ''254733000111''
   \<and> formatPhoneNumber ''(733) 000-111'' = Inr ''254733000111''"
proof -
  have a: "formatPhoneNumber ''0733000111'' = Inr ''254733000111''
      \<and> formatPhoneNumber ''+254733000111'' = Inr ''254733000111''
      \<and> formatPhoneNumber ''07330001'' = Inl (Error ''Invalid phone number format: 07330001'')"
    using C9_formatPhoneNumber_on_digits[of "''733000111''" "''07330001''"]
    by (simp add: isDigit_def digitsAccepted_def startsWith_def)
  have b: "formatPhoneNumber ''0733-000-111'' = Inr ''254733000111''
      \<and> formatPhoneNumber ''0733-000-111'' = formatPhoneNumber ''0733000111''"
    using C9_formatPhoneNumber_on_digits[of "''733000111''" "''0733-000-111''"]
    by (simp add: isDigit_def digitsAccepted_def startsWith_def)
  have c: "formatPhoneNumber ''tel: 254 733 000 111'' = Inr ''254733000111''"
    using C9_formatPhoneNumber_on_digits[of "''733000111''" "''tel: 254 733 000 111''"]
    by (simp add: isDigit_def digitsAccepted_def startsWith_def)
  have d: "formatPhoneNumber ''(733) 000-111'' = Inr ''254733000111''"
    using C9_formatPhoneNumber_on_digits[of "''733000111''" "''(733) 000-111''"]
    by (simp add: isDigit_def digitsAccepted_def startsWith_def)
  show ?thesis using a b c d by simp
qed

text \<open>
  C10. An initiation that the breaker lets through and whose token request fails ends
  with the authentication error after the one call to the gateway, and the failure
  counter has gone up by two: once in \<open>getAccessToken\<close>, once in the handler of
  \<open>initiateStkPush\<close>. From a fresh breaker two such initiations leave it \<open>CLOSED\<close>
  and the third leaves it \<open>OPEN\<close>.
\<close>

theorem C10_auth_failure_counts_twice:
  assumes "tokenMissing e"
  shows "(notRefused e w \<longrightarrow>
            fst (initiateStkPush e d w) =
              Inl (HttpException ''Failed to authenticate with M-Pesa API'' SERVICE_UNAVAILABLE)
            \<and> sent (snd (initiateStkPush e d w)) = sent w @ [AuthCall]
            \<and> failures (circuitBreaker (snd (initiateStkPush e d w)))
                = failures (circuitBreaker w) + 2)
         \<and> (circuitBreaker w = initialBreaker \<longrightarrow>
            state (circuitBreaker (snd (initiateStkPush e d (snd (initiateStkPush e d w)))))
              = CLOSED
            \<and> state (circuitBreaker (snd (initiateStkPush e d (snd (initiateStkPush e d
                  (snd (initiateStkPush e d w))))))) = OPEN)"
  using init_auth_fails[OF assms, of w d] three_auth_failures[OF assms, of w d]
  by (simp add: initialBreaker_def)

theorem C10_auth_failure_witness:
  "tokenMissing (demoEnv\<lparr>authReply := AuthFailed\<rparr>)
   \<and> failures (circuitBreaker (snd (initiateStkPush (demoEnv\<lparr>authReply := AuthFailed\<rparr>)
        demoRequest freshWorld))) = 2
   \<and> state (circuitBreaker (snd (initiateStkPush (demoEnv\<lparr>authReply := AuthFailed\<rparr>) demoRequest
        (snd (initiateStkPush (demoEnv\<lparr>authReply := AuthFailed\<rparr>) demoRequest
          (snd (initiateStkPush (demoEnv\<lparr>authReply := AuthFailed\<rparr>) demoRequest freshWorld))))))) = OPEN"
proof -
  have t: "tokenMissing (demoEnv\<lparr>authReply := AuthFailed\<rparr>)"
    by (simp add: tokenMissing_def)
  have n: "notRefused (demoEnv\<lparr>authReply := AuthFailed\<rparr>) freshWorld"
    by (simp add: notRefused_def freshWorld_def initialBreaker_def)
  show ?thesis
    using t n C10_auth_failure_counts_twice[OF t, of freshWorld demoRequest]
    by (simp add: freshWorld_def initialBreaker_def)
qed

end
